theory Spec2Isabelle
  imports Complex_Main
begin

section \<open>Data model of Source/Scene/ClippingPlanesCollection.js\<close>

text \<open>
  The values of the enumeration \<^verbatim>\<open>Intersect\<close> that the source compares with
  \<^verbatim>\<open>===\<close>.
\<close>

datatype Intersect = OUTSIDE | INTERSECTING | INSIDE

text \<open>
  The only failure the source can raise by itself: a JavaScript \<^verbatim>\<open>TypeError\<close>, from
  calling \<^verbatim>\<open>undefined\<close> as a function or from writing a property of
  \<^verbatim>\<open>undefined\<close>.
\<close>

datatype error = TypeError

text \<open>
  JavaScript numbers are read as real numbers; no statement below depends on rounding.
  A \<^verbatim>\<open>Matrix4\<close> is its array of 16 numbers in column-major order.
\<close>

type_synonym addr = nat
type_synonym Cartesian3 = "real \<times> real \<times> real"
type_synonym Cartesian4 = "real \<times> real \<times> real \<times> real"
type_synonym Color = "real \<times> real \<times> real \<times> real"
type_synonym Matrix4 = "real list"

record Plane =
  normal :: Cartesian3
  distance :: real

text \<open>
  An instance of \<^verbatim>\<open>ClippingPlanesCollection\<close>. The fields \<^verbatim>\<open>planes\<close>,
  \<^verbatim>\<open>modelMatrix\<close> and \<^verbatim>\<open>edgeColor\<close> hold references to objects of the store;
  \<^verbatim>\<open>_testIntersection\<close> and \<^verbatim>\<open>_combineClippingRegions\<close> are
  \<^verbatim>\<open>undefined\<close> (\<open>None\<close>) until the setter has run.
\<close>

record ClippingPlanesCollection =
  planes :: addr
  enabled :: bool
  modelMatrix :: addr
  edgeColor :: addr
  edgeWidth :: real
  priv_testIntersection :: "(Intersect \<Rightarrow> bool) option"
  priv_combineClippingRegions :: "bool option"

text \<open>
  The \<^verbatim>\<open>options\<close> object of the constructor: every property may be absent.
\<close>

record Options =
  opt_planes :: "addr option"
  opt_enabled :: "bool option"
  opt_modelMatrix :: "addr option"
  opt_combineClippingRegions :: "bool option"
  opt_edgeColor :: "addr option"
  opt_edgeWidth :: "real option"

text \<open>
  The store. Objects are identified by their address; two references are the same object
  exactly when the addresses are equal. There is one table per kind of object, and
  \<open>nextAddr\<close> is the first address that no \<^verbatim>\<open>new\<close> has handed out yet. An array of
  planes holds references to \<^verbatim>\<open>Plane\<close> objects; an array of packed planes holds
  references to \<^verbatim>\<open>Cartesian4\<close> objects, or \<open>None\<close> where the slot is a hole or
  \<^verbatim>\<open>undefined\<close>. The module-level variables \<^verbatim>\<open>scratchPlane\<close> and
  \<^verbatim>\<open>scratchMatrix\<close> are part of the state.
\<close>

record state =
  nextAddr :: addr
  planeObjects :: "addr \<Rightarrow> Plane"
  planeArrays :: "addr \<Rightarrow> addr list"
  matrices :: "addr \<Rightarrow> Matrix4"
  colors :: "addr \<Rightarrow> Color"
  cartesian4s :: "addr \<Rightarrow> Cartesian4"
  packedArrays :: "addr \<Rightarrow> addr option list"
  collections :: "addr \<Rightarrow> ClippingPlanesCollection"
  scratchPlane :: Plane
  scratchMatrix :: Matrix4

section \<open>Helpers of the source\<close>

text \<open>\<^verbatim>\<open>defaultValue(a, b)\<close>: \<open>a\<close> unless it is undefined.\<close>

definition defaultValue :: "'a option \<Rightarrow> 'a \<Rightarrow> 'a" where
  "defaultValue a b = (case a of None \<Rightarrow> b | Some x \<Rightarrow> x)"

definition EMPTY_OBJECT :: Options where
  "EMPTY_OBJECT = \<lparr>opt_planes = None, opt_enabled = None, opt_modelMatrix = None,
     opt_combineClippingRegions = None, opt_edgeColor = None, opt_edgeWidth = None\<rparr>"

definition Matrix4_IDENTITY :: Matrix4 where
  "Matrix4_IDENTITY = [1, 0, 0, 0,  0, 1, 0, 0,  0, 0, 1, 0,  0, 0, 0, 1]"

definition Color_WHITE :: Color where
  "Color_WHITE = (1, 1, 1, 1)"

text \<open>
  \<^verbatim>\<open>getTestIntersectionFunction\<close> (lines 110-120). The argument is the value written to
  the property, \<open>None\<close> being \<^verbatim>\<open>undefined\<close>, which is falsy.
\<close>

definition getTestIntersectionFunction :: "bool option \<Rightarrow> Intersect \<Rightarrow> bool" where
  "getTestIntersectionFunction combineClippingRegions =
     (if combineClippingRegions = Some True
      then (\<lambda>v. v = INSIDE)
      else (\<lambda>v. v = OUTSIDE))"

text \<open>The property \<^verbatim>\<open>combineClippingRegions\<close> (lines 97-107): getter and setter.\<close>

definition get_combineClippingRegions :: "ClippingPlanesCollection \<Rightarrow> bool option" where
  "get_combineClippingRegions this = priv_combineClippingRegions this"

definition set_combineClippingRegions ::
  "ClippingPlanesCollection \<Rightarrow> bool option \<Rightarrow> ClippingPlanesCollection" where
  "set_combineClippingRegions this v =
     (if priv_combineClippingRegions this \<noteq> v
      then this\<lparr>priv_combineClippingRegions := v,
                priv_testIntersection := Some (getTestIntersectionFunction v)\<rparr>
      else this)"

section \<open>Allocation\<close>

text \<open>
  Each \<^verbatim>\<open>new\<close>, array literal, \<^verbatim>\<open>Array.from\<close> and result-less \<^verbatim>\<open>clone\<close>
  takes the address \<open>nextAddr\<close> and advances it.
\<close>

definition new_planeArray :: "state \<Rightarrow> addr list \<Rightarrow> addr \<times> state" where
  "new_planeArray s xs =
     (nextAddr s, s\<lparr>nextAddr := Suc (nextAddr s),
                     planeArrays := (planeArrays s)(nextAddr s := xs)\<rparr>)"

definition new_packedArray :: "state \<Rightarrow> addr option list \<Rightarrow> addr \<times> state" where
  "new_packedArray s xs =
     (nextAddr s, s\<lparr>nextAddr := Suc (nextAddr s),
                     packedArrays := (packedArrays s)(nextAddr s := xs)\<rparr>)"

definition new_Matrix4 :: "state \<Rightarrow> Matrix4 \<Rightarrow> addr \<times> state" where
  "new_Matrix4 s m =
     (nextAddr s, s\<lparr>nextAddr := Suc (nextAddr s),
                     matrices := (matrices s)(nextAddr s := m)\<rparr>)"

definition new_Color :: "state \<Rightarrow> Color \<Rightarrow> addr \<times> state" where
  "new_Color s c =
     (nextAddr s, s\<lparr>nextAddr := Suc (nextAddr s),
                     colors := (colors s)(nextAddr s := c)\<rparr>)"

definition new_Plane :: "state \<Rightarrow> Plane \<Rightarrow> addr \<times> state" where
  "new_Plane s p =
     (nextAddr s, s\<lparr>nextAddr := Suc (nextAddr s),
                     planeObjects := (planeObjects s)(nextAddr s := p)\<rparr>)"

definition new_Cartesian4 :: "state \<Rightarrow> Cartesian4 \<Rightarrow> addr \<times> state" where
  "new_Cartesian4 s c =
     (nextAddr s, s\<lparr>nextAddr := Suc (nextAddr s),
                     cartesian4s := (cartesian4s s)(nextAddr s := c)\<rparr>)"

text \<open>
  Modelled from the spec: \<^verbatim>\<open>Matrix4.clone(matrix, result)\<close> and
  \<^verbatim>\<open>Color.clone(color, result)\<close> of Core/Matrix4 and Core/Color, which are not in
  the source at hand. The spec has both copy by value: with a result object the value is
  written into it, and the result-less call (used above through \<open>new_Matrix4\<close> and
  \<open>new_Color\<close>) allocates a new object.
\<close>

definition Matrix4_clone :: "state \<Rightarrow> addr \<Rightarrow> addr \<Rightarrow> state" where
  "Matrix4_clone s matrix result = s\<lparr>matrices := (matrices s)(result := matrices s matrix)\<rparr>"

definition Color_clone :: "state \<Rightarrow> addr \<Rightarrow> addr \<Rightarrow> state" where
  "Color_clone s color result = s\<lparr>colors := (colors s)(result := colors s color)\<rparr>"

section \<open>The constructor (lines 41-86)\<close>

text \<open>
  The arguments of each \<^verbatim>\<open>defaultValue\<close> call are evaluated before the call, so the
  default array, matrix and colour are allocated whether or not they are used. The last
  statement goes through the setter.
\<close>

definition new_ClippingPlanesCollection :: "state \<Rightarrow> Options option \<Rightarrow> addr \<times> state" where
  "new_ClippingPlanesCollection s options =
     (let opts = defaultValue options EMPTY_OBJECT;
          this = nextAddr s;
          s0 = s\<lparr>nextAddr := Suc (nextAddr s)\<rparr>;
          (a, s1) = new_planeArray s0 [];
          (m, s2) = new_Matrix4 s1 Matrix4_IDENTITY;
          (c, s3) = new_Color s2 Color_WHITE;
          obj = \<lparr>planes = defaultValue (opt_planes opts) a,
                 enabled = defaultValue (opt_enabled opts) True,
                 modelMatrix = defaultValue (opt_modelMatrix opts) m,
                 edgeColor = defaultValue (opt_edgeColor opts) c,
                 edgeWidth = defaultValue (opt_edgeWidth opts) 0,
                 priv_testIntersection = None,
                 priv_combineClippingRegions = None\<rparr>;
          obj' = set_combineClippingRegions obj
                   (Some (defaultValue (opt_combineClippingRegions opts) True))
      in (this, s3\<lparr>collections := (collections s3)(this := obj')\<rparr>))"

section \<open>computeIntersectionWithBoundingVolume (lines 185-216)\<close>

text \<open>
  The collaborators \<^verbatim>\<open>Matrix4.multiply\<close>, \<^verbatim>\<open>Plane.transform\<close> and the bounding
  volume's \<^verbatim>\<open>intersectPlane\<close> are not in the source at hand; they are parameters
  \<open>mul\<close>, \<open>ptrans\<close> and \<open>isect\<close>. \<^verbatim>\<open>Matrix4.multiply(a, b, scratchMatrix)\<close> stores
  \<open>mul a b\<close> in \<^verbatim>\<open>scratchMatrix\<close>, and \<^verbatim>\<open>Plane.transform(p, t, scratchPlane)\<close>
  stores \<open>ptrans p t\<close> in \<^verbatim>\<open>scratchPlane\<close>.

  The loop of lines 202-213, from index \<open>i\<close> with the accumulated \<open>intersection\<close>.
  \<open>test\<close> is \<^verbatim>\<open>this._testIntersection\<close>; calling it while it is undefined raises.
  The bounding volume may be \<^verbatim>\<open>null\<close> or \<^verbatim>\<open>undefined\<close> (\<open>None\<close>); then
  \<^verbatim>\<open>boundingVolume.intersectPlane\<close> of line 207 raises, after
  \<^verbatim>\<open>Plane.transform\<close> has written \<^verbatim>\<open>scratchPlane\<close>.
\<close>

function computeIntersection_loop ::
  "(Plane \<Rightarrow> Matrix4 \<Rightarrow> Plane) \<Rightarrow> ('vol \<Rightarrow> Plane \<Rightarrow> Intersect) \<Rightarrow>
   (Intersect \<Rightarrow> bool) option \<Rightarrow> 'vol option \<Rightarrow> Matrix4 \<Rightarrow> addr list \<Rightarrow> nat \<Rightarrow> nat \<Rightarrow>
   Intersect \<Rightarrow> state \<Rightarrow> (error + Intersect) \<times> state" where
  "computeIntersection_loop ptrans isect test boundingVolume transform plns len i intersection s =
     (if i < len then
        (let plane = plns ! i;
             s1 = s\<lparr>scratchPlane := ptrans (planeObjects s plane) transform\<rparr>
         in case boundingVolume of
              None \<Rightarrow> (Inl TypeError, s1)
            | Some volume \<Rightarrow>
                (let v = isect volume (scratchPlane s1)
                 in if v = INTERSECTING
                    then computeIntersection_loop ptrans isect test boundingVolume transform
                           plns len (Suc i) v s1
                    else (case test of
                            None \<Rightarrow> (Inl TypeError, s1)
                          | Some t \<Rightarrow>
                              if t v then (Inr v, s1)
                              else computeIntersection_loop ptrans isect test boundingVolume
                                     transform plns len (Suc i) intersection s1)))
      else (Inr intersection, s))"
  by pat_completeness auto
termination
  by (relation "measure (\<lambda>(ptrans, isect, test, boundingVolume, transform, plns, len, i,
        intersection, s). len - i)") auto

declare computeIntersection_loop.simps [simp del]

definition computeIntersectionWithBoundingVolume ::
  "(Matrix4 \<Rightarrow> Matrix4 \<Rightarrow> Matrix4) \<Rightarrow> (Plane \<Rightarrow> Matrix4 \<Rightarrow> Plane) \<Rightarrow>
   ('vol \<Rightarrow> Plane \<Rightarrow> Intersect) \<Rightarrow> state \<Rightarrow> addr \<Rightarrow> 'vol option \<Rightarrow> addr option \<Rightarrow>
   (error + Intersect) \<times> state" where
  "computeIntersectionWithBoundingVolume mul ptrans isect s this boundingVolume parentTransform =
     (let obj = collections s this;
          plns = planeArrays s (planes obj);
          len = length plns;
          (transform, s1) =
             (case parentTransform of
                None \<Rightarrow> (matrices s (modelMatrix obj), s)
              | Some pt \<Rightarrow>
                  (let s' = s\<lparr>scratchMatrix := mul (matrices s (modelMatrix obj)) (matrices s pt)\<rparr>
                   in (scratchMatrix s', s')));
          intersection =
             (if get_combineClippingRegions obj = Some True \<and> len > 0 then OUTSIDE else INSIDE)
      in computeIntersection_loop ptrans isect (priv_testIntersection obj) boundingVolume
           transform plns len 0 intersection s1)"


section \<open>The classification algorithm as the specification words it\<close>


definition predicate_consistent :: "ClippingPlanesCollection \<Rightarrow> bool" where
  "predicate_consistent obj =
     (priv_testIntersection obj =
        Some (getTestIntersectionFunction (priv_combineClippingRegions obj)))"

fun classify_scan :: "bool \<Rightarrow> Intersect list \<Rightarrow> Intersect \<Rightarrow> Intersect" where
  "classify_scan combine [] result = result"
| "classify_scan combine (v # vs) result =
     (if v = INTERSECTING then classify_scan combine vs INTERSECTING
      else if combine \<and> v = INSIDE then v
      else if \<not> combine \<and> v = OUTSIDE then v
      else classify_scan combine vs result)"

definition classify_spec :: "bool \<Rightarrow> Intersect list \<Rightarrow> Intersect" where
  "classify_spec combine verdicts =
     (if verdicts = [] then INSIDE
      else classify_scan combine verdicts (if combine then OUTSIDE else INSIDE))"

definition effectiveTransform ::
  "(Matrix4 \<Rightarrow> Matrix4 \<Rightarrow> Matrix4) \<Rightarrow> state \<Rightarrow> addr \<Rightarrow> addr option \<Rightarrow> Matrix4" where
  "effectiveTransform mul s this parentTransform =
     (case parentTransform of
        None \<Rightarrow> matrices s (modelMatrix (collections s this))
      | Some pt \<Rightarrow> mul (matrices s (modelMatrix (collections s this))) (matrices s pt))"

definition planeVerdicts ::
  "(Matrix4 \<Rightarrow> Matrix4 \<Rightarrow> Matrix4) \<Rightarrow> (Plane \<Rightarrow> Matrix4 \<Rightarrow> Plane) \<Rightarrow>
   ('vol \<Rightarrow> Plane \<Rightarrow> Intersect) \<Rightarrow> state \<Rightarrow> addr \<Rightarrow> 'vol \<Rightarrow> addr option \<Rightarrow> Intersect list" where
  "planeVerdicts mul ptrans isect s this boundingVolume parentTransform =
     map (\<lambda>p. isect boundingVolume
                (ptrans (planeObjects s p) (effectiveTransform mul s this parentTransform)))
         (planeArrays s (planes (collections s this)))"

section \<open>transformAndPackPlanes (lines 131-152)\<close>

text \<open>
  Modelled from the spec: \<^verbatim>\<open>Cartesian3.clone(cartesian, result)\<close> of Core/Cartesian3,
  which is not in the source at hand, for a result that is an object: the three
  components of the normal are written into the first three components of the result
  and its fourth component is left as it is.
\<close>

definition Cartesian3_clone :: "state \<Rightarrow> Cartesian3 \<Rightarrow> addr \<Rightarrow> state" where
  "Cartesian3_clone s cartesian result =
     (case cartesian of (x, y, z) \<Rightarrow>
        case cartesian4s s result of (x0, y0, z0, w0) \<Rightarrow>
          s\<lparr>cartesian4s := (cartesian4s s)(result := (x, y, z, w0))\<rparr>)"

text \<open>The assignment \<^verbatim>\<open>packedPlane.w = d\<close> to an object.\<close>

definition set_w :: "state \<Rightarrow> addr \<Rightarrow> real \<Rightarrow> state" where
  "set_w s packedPlane d =
     (case cartesian4s s packedPlane of (x0, y0, z0, w0) \<Rightarrow>
        s\<lparr>cartesian4s := (cartesian4s s)(packedPlane := (x0, y0, z0, d))\<rparr>)"

text \<open>
  \<^verbatim>\<open>array[i]\<close>: the element, or \<^verbatim>\<open>undefined\<close> past the end and at a hole.
\<close>

definition array_get :: "addr option list \<Rightarrow> nat \<Rightarrow> addr option" where
  "array_get array i = (if i < length array then array ! i else None)"

text \<open>
  The loop of lines 141-149 from index \<open>i\<close>. When \<^verbatim>\<open>array[i]\<close> is undefined the
  assignment \<^verbatim>\<open>packedPlane.w = ...\<close> raises a \<^verbatim>\<open>TypeError\<close>; the loop reports it
  as \<open>Some TypeError\<close> with the state reached.
\<close>

function transformAndPackPlanes_loop ::
  "(Plane \<Rightarrow> Matrix4 \<Rightarrow> Plane) \<Rightarrow> Matrix4 \<Rightarrow> addr list \<Rightarrow> addr option list \<Rightarrow> nat \<Rightarrow> nat \<Rightarrow>
   state \<Rightarrow> error option \<times> state" where
  "transformAndPackPlanes_loop ptrans transform plns array len i s =
     (if i < len then
        (let plane = plns ! i;
             packedPlane = array_get array i;
             s1 = s\<lparr>scratchPlane := ptrans (planeObjects s plane) transform\<rparr>
         in case packedPlane of
              None \<Rightarrow> (Some TypeError, s1)
            | Some q \<Rightarrow>
                (let s2 = Cartesian3_clone s1 (normal (scratchPlane s1)) q;
                     s3 = set_w s2 q (distance (scratchPlane s2))
                 in transformAndPackPlanes_loop ptrans transform plns array len (Suc i) s3))
      else (None, s))"
  by pat_completeness auto
termination
  by (relation "measure (\<lambda>(ptrans, transform, plns, array, len, i, s). len - i)") auto

declare transformAndPackPlanes_loop.simps [simp del]

text \<open>
  \<^verbatim>\<open>new Array(length)\<close> is an array of \<open>length\<close> holes. \<open>viewMatrix\<close> is a reference
  to a matrix, \<open>array\<close> an optional reference to an array of packed planes.
\<close>

definition transformAndPackPlanes ::
  "(Matrix4 \<Rightarrow> Matrix4 \<Rightarrow> Matrix4) \<Rightarrow> (Plane \<Rightarrow> Matrix4 \<Rightarrow> Plane) \<Rightarrow> state \<Rightarrow> addr \<Rightarrow> addr \<Rightarrow>
   addr option \<Rightarrow> (error + addr) \<times> state" where
  "transformAndPackPlanes mul ptrans s this viewMatrix array =
     (let obj = collections s this;
          plns = planeArrays s (planes obj);
          len = length plns;
          (arr, s1) = (case array of
                         None \<Rightarrow> new_packedArray s (replicate len None)
                       | Some a \<Rightarrow> (a, s));
          s2 = s1\<lparr>scratchMatrix := mul (matrices s1 viewMatrix) (matrices s1 (modelMatrix obj))\<rparr>;
          transform = scratchMatrix s2;
          (e, s3) = transformAndPackPlanes_loop ptrans transform plns (packedArrays s2 arr) len 0 s2
      in (case e of Some err \<Rightarrow> (Inl err, s3) | None \<Rightarrow> (Inr arr, s3)))"

section \<open>clone (lines 160-173)\<close>

text \<open>
  \<^verbatim>\<open>Array.from(a)\<close> is a new array with the elements of \<open>a\<close>, which are references.
  The statements run one after another, each reading the state the previous one left.
\<close>

definition update_collection ::
  "state \<Rightarrow> addr \<Rightarrow> (ClippingPlanesCollection \<Rightarrow> ClippingPlanesCollection) \<Rightarrow> state" where
  "update_collection s a f = s\<lparr>collections := (collections s)(a := f (collections s a))\<rparr>"

definition clone :: "state \<Rightarrow> addr \<Rightarrow> addr option \<Rightarrow> addr \<times> state" where
  "clone s this result =
     (let (res, s0) = (case result of
                         None \<Rightarrow> new_ClippingPlanesCollection s None
                       | Some r \<Rightarrow> (r, s));
          (a, s1) = new_planeArray s0 (planeArrays s0 (planes (collections s0 this)));
          s2 = update_collection s1 res (\<lambda>c. c\<lparr>planes := a\<rparr>);
          s3 = update_collection s2 res (\<lambda>c. c\<lparr>enabled := enabled (collections s2 this)\<rparr>);
          s4 = Matrix4_clone s3 (modelMatrix (collections s3 this))
                 (modelMatrix (collections s3 res));
          s5 = update_collection s4 res
                 (\<lambda>c. set_combineClippingRegions c
                         (get_combineClippingRegions (collections s4 this)));
          s6 = Color_clone s5 (edgeColor (collections s5 this)) (edgeColor (collections s5 res));
          s7 = update_collection s6 res (\<lambda>c. c\<lparr>edgeWidth := edgeWidth (collections s6 this)\<rparr>)
      in (res, s7))"

section \<open>Concrete collaborators and scenes\<close>

text \<open>
  Modelled from the spec: \<^verbatim>\<open>Matrix4.multiply\<close> of Core/Matrix4, which is not in the
  source at hand: the product of two 4x4 matrices, both stored column by column.
\<close>

definition Matrix4_multiply :: "Matrix4 \<Rightarrow> Matrix4 \<Rightarrow> Matrix4" where
  "Matrix4_multiply a b =
     map (\<lambda>j. (\<Sum>k\<leftarrow>[0..<4]. a ! (k * 4 + j mod 4) * b ! ((j div 4) * 4 + k))) [0..<16]"

text \<open>The dot product of two vectors, which the next two definitions use.\<close>

definition Cartesian3_dot :: "Cartesian3 \<Rightarrow> Cartesian3 \<Rightarrow> real" where
  "Cartesian3_dot a b =
     (case a of (ax, ay, az) \<Rightarrow> case b of (bx, by, bz) \<Rightarrow> ax * bx + ay * by + az * bz)"

text \<open>
  Modelled from the spec: \<^verbatim>\<open>Plane.transform\<close> of Core/Plane, which is not in the source
  at hand, in the spec's variant for a rigid transform: the normal is transformed by the
  linear part, and the distance is recomputed so that the half-space is preserved. Under
  the identity the plane is unchanged.
\<close>

definition Plane_transform :: "Plane \<Rightarrow> Matrix4 \<Rightarrow> Plane" where
  "Plane_transform p m =
     (case normal p of (x, y, z) \<Rightarrow>
        (let n' = (m ! 0 * x + m ! 4 * y + m ! 8 * z,
                   m ! 1 * x + m ! 5 * y + m ! 9 * z,
                   m ! 2 * x + m ! 6 * y + m ! 10 * z)
         in \<lparr>normal = n',
             distance = distance p - Cartesian3_dot n' (m ! 12, m ! 13, m ! 14)\<rparr>))"

text \<open>
  Modelled from the spec: the bounding volume's operation "classify against a single
  plane" (\<^verbatim>\<open>intersectPlane\<close> of Core/BoundingSphere, not in the source at hand), for a
  sphere. The spec's half-space of a plane is the set of points with
  \<open>dot(normal, point) + distance \<ge> 0\<close>; a sphere is inside when all of it is in the
  half-space, outside when none of it is, and intersecting otherwise.
\<close>

record BoundingSphere =
  center :: Cartesian3
  radius :: real

definition BoundingSphere_intersectPlane :: "BoundingSphere \<Rightarrow> Plane \<Rightarrow> Intersect" where
  "BoundingSphere_intersectPlane sphere plane =
     (let distanceToPlane = Cartesian3_dot (normal plane) (center sphere) + distance plane
      in if distanceToPlane < - radius sphere then OUTSIDE
         else if distanceToPlane < radius sphere then INTERSECTING
         else INSIDE)"

text \<open>A state in which nothing has been allocated.\<close>

definition empty_state :: state where
  "empty_state =
     \<lparr>nextAddr = 0,
      planeObjects = (\<lambda>a. \<lparr>normal = (1, 0, 0), distance = 0\<rparr>),
      planeArrays = (\<lambda>a. []),
      matrices = (\<lambda>a. Matrix4_IDENTITY),
      colors = (\<lambda>a. Color_WHITE),
      cartesian4s = (\<lambda>a. (0, 0, 0, 0)),
      packedArrays = (\<lambda>a. []),
      collections = (\<lambda>a. \<lparr>planes = 0, enabled = True, modelMatrix = 0, edgeColor = 0,
                           edgeWidth = 0, priv_testIntersection = None,
                           priv_combineClippingRegions = None\<rparr>),
      scratchPlane = \<lparr>normal = (1, 0, 0), distance = 0\<rparr>,
      scratchMatrix = Matrix4_IDENTITY\<rparr>"

text \<open>
  The slab of the spec's scenario: planes with normal (1,0,0), distance 0 and normal
  (-1,0,0), distance 5, in a collection built by the constructor with the given mode.
  The planes get the addresses 0 and 1, their array 2 and the collection 3.
\<close>

definition slab_scene :: "bool \<Rightarrow> addr \<times> state" where
  "slab_scene combine =
     (let (p1, s1) = new_Plane empty_state \<lparr>normal = (1, 0, 0), distance = 0\<rparr>;
          (p2, s2) = new_Plane s1 \<lparr>normal = (- 1, 0, 0), distance = 5\<rparr>;
          (a, s3) = new_planeArray s2 [p1, p2]
      in new_ClippingPlanesCollection s3
           (Some (EMPTY_OBJECT\<lparr>opt_planes := Some a,
                                opt_combineClippingRegions := Some combine\<rparr>)))"

text \<open>The collection built with no options in the empty state; it gets the address 0.\<close>

definition no_planes_scene :: "addr \<times> state" where
  "no_planes_scene = new_ClippingPlanesCollection empty_state None"

text \<open>Several \<^verbatim>\<open>new Plane(...)\<close> in a row; the references come back in order.\<close>

fun new_Planes :: "state \<Rightarrow> Plane list \<Rightarrow> addr list \<times> state" where
  "new_Planes s [] = ([], s)"
| "new_Planes s (p # ps) =
     (let (a, s1) = new_Plane s p;
          (as, s2) = new_Planes s1 ps
      in (a # as, s2))"

text \<open>
  A collection of seven planes, one more than the documented maximum: normal (1,0,0) and
  the distances 0 to 6. The planes get the addresses 0 to 6, their array 7 and the
  collection 8.
\<close>

definition seven_planes_store :: "addr \<times> state" where
  "seven_planes_store =
     (let (ps, s1) = new_Planes empty_state
                       (map (\<lambda>d. \<lparr>normal = (1, 0, 0), distance = d\<rparr>) [0, 1, 2, 3, 4, 5, 6])
      in new_planeArray s1 ps)"

definition seven_planes_scene :: "addr \<times> state" where
  "seven_planes_scene =
     new_ClippingPlanesCollection (snd seven_planes_store)
       (Some (EMPTY_OBJECT\<lparr>opt_planes := Some (fst seven_planes_store)\<rparr>))"

text \<open>
  The slab in intersection mode with what a call of transformAndPackPlanes needs: an
  identity view matrix at address 7, two \<^verbatim>\<open>Cartesian4\<close> objects at 8 and 9, and
  the container holding them at 10.
\<close>

definition pack_scene :: state where
  "pack_scene =
     (let s1 = snd (slab_scene True);
          (view, s2) = new_Matrix4 s1 Matrix4_IDENTITY;
          (q1, s3) = new_Cartesian4 s2 (0, 0, 0, 0);
          (q2, s4) = new_Cartesian4 s3 (0, 0, 0, 0);
          (array, s5) = new_packedArray s4 [Some q1, Some q2]
      in s5)"

text \<open>
  A caller's plane (address 0), plane array (address 1) and matrix (address 2), and the
  options object naming the array and the matrix; the collection built from them gets the
  address 3.
\<close>

definition caller_store :: state where
  "caller_store =
     (let (p, s1) = new_Plane empty_state \<lparr>normal = (0, 0, 1), distance = 2\<rparr>;
          (a, s2) = new_planeArray s1 [p];
          (m, s3) = new_Matrix4 s2 Matrix4_IDENTITY
      in s3)"

definition caller_options :: Options where
  "caller_options = EMPTY_OBJECT\<lparr>opt_planes := Some 1, opt_modelMatrix := Some 2\<rparr>"

definition caller_scene :: "addr \<times> state" where
  "caller_scene = new_ClippingPlanesCollection caller_store (Some caller_options)"

text \<open>
  Two collections built from the caller's options, at the addresses 3 and 7: both hold
  the caller's array and matrix.
\<close>

definition two_collections_scene :: state where
  "two_collections_scene =
     snd (new_ClippingPlanesCollection (snd caller_scene) (Some caller_options))"



text \<open>
  A collection without planes whose model matrix, at address 0, is all zeros and so has
  no inverse; the collection gets the address 1.
\<close>

definition singular_scene :: "addr \<times> state" where
  "singular_scene =
     (let (m, s1) = new_Matrix4 empty_state (replicate 16 0)
      in new_ClippingPlanesCollection s1 (Some (EMPTY_OBJECT\<lparr>opt_modelMatrix := Some m\<rparr>)))"

section \<open>Auxiliary notions for the proofs\<close>

text \<open>
  A table of objects after a set of writes: \<open>w\<close> gives the value written last to each
  address that was written.
\<close>

definition overwrite :: "('a \<Rightarrow> 'b option) \<Rightarrow> ('a \<Rightarrow> 'b) \<Rightarrow> 'a \<Rightarrow> 'b" where
  "overwrite w f x = (case w x of None \<Rightarrow> f x | Some v \<Rightarrow> v)"

text \<open>
  A collection that exists in a state: its own address and the addresses of the array,
  matrix and colour it holds have been handed out, that is, they are below \<open>nextAddr\<close>.
  Every reference of a running program is of this kind.
\<close>

definition collection_allocated :: "state \<Rightarrow> addr \<Rightarrow> bool" where
  "collection_allocated s this =
     (this < nextAddr s \<and>
      planes (collections s this) < nextAddr s \<and>
      modelMatrix (collections s this) < nextAddr s \<and>
      edgeColor (collections s this) < nextAddr s)"

section \<open>Properties\<close>

subsection \<open>Facts about the scenes\<close>

lemmas scene_defs = slab_scene_def empty_state_def new_Plane_def new_planeArray_def
  new_ClippingPlanesCollection_def new_Matrix4_def new_Color_def defaultValue_def
  EMPTY_OBJECT_def set_combineClippingRegions_def Let_def

lemma slab_this: "fst (slab_scene b) = 3"
  by (simp add: scene_defs)

lemma slab_collection:
  "collections (snd (slab_scene b)) 3 =
     \<lparr>planes = 2, enabled = True, modelMatrix = 5, edgeColor = 6, edgeWidth = 0,
      priv_testIntersection = Some (getTestIntersectionFunction (Some b)),
      priv_combineClippingRegions = Some b\<rparr>"
  by (simp add: scene_defs)

lemma slab_planes: "planeArrays (snd (slab_scene b)) 2 = [0, 1]"
  by (simp add: scene_defs)

lemma slab_plane_0:
  "planeObjects (snd (slab_scene b)) 0 = \<lparr>normal = (1, 0, 0), distance = 0\<rparr>"
  by (simp add: scene_defs)

lemma slab_plane_1:
  "planeObjects (snd (slab_scene b)) (Suc 0) = \<lparr>normal = (- 1, 0, 0), distance = 5\<rparr>"
  by (simp add: scene_defs)

lemma slab_modelMatrix: "matrices (snd (slab_scene b)) 5 = Matrix4_IDENTITY"
  by (simp add: scene_defs)

lemmas slab_facts = slab_this slab_collection slab_planes slab_plane_0 slab_plane_1
  slab_modelMatrix

lemma Plane_transform_identity: "Plane_transform p Matrix4_IDENTITY = p"
  by (cases p)
     (auto simp add: Plane_transform_def Matrix4_IDENTITY_def Cartesian3_dot_def Let_def
        split: prod.splits)

lemma slab_verdicts:
  "planeVerdicts Matrix4_multiply Plane_transform BoundingSphere_intersectPlane
     (snd (slab_scene b)) 3 sphere None =
   [BoundingSphere_intersectPlane sphere \<lparr>normal = (1, 0, 0), distance = 0\<rparr>,
    BoundingSphere_intersectPlane sphere \<lparr>normal = (- 1, 0, 0), distance = 5\<rparr>]"
  by (simp add: planeVerdicts_def effectiveTransform_def slab_facts Plane_transform_identity)

subsection \<open>The scan of the planes\<close>

lemma loop_scan:
  "planeObjects s = po \<Longrightarrow> len = length plns \<Longrightarrow>
   fst (computeIntersection_loop ptrans isect (Some (getTestIntersectionFunction c)) (Some vol)
          T plns len i acc s)
   = Inr (classify_scan (c = Some True)
            (map (\<lambda>p. isect vol (ptrans (po p) T)) (drop i plns)) acc)"
proof (induction "len - i" arbitrary: i acc s)
  case 0
  then show ?case
    by (simp add: computeIntersection_loop.simps [of _ _ _ _ _ _ _ i])
next
  case (Suc n)
  then have lt: "i < len" and n: "n = len - Suc i" by simp_all
  let ?s1 = "s\<lparr>scratchPlane := ptrans (planeObjects s (plns ! i)) T\<rparr>"
  let ?v = "isect vol (ptrans (po (plns ! i)) T)"
  from lt Suc(4) have dr: "drop i plns = plns ! i # drop (Suc i) plns"
    by (simp add: Cons_nth_drop_Suc)
  have po1: "planeObjects ?s1 = po" using Suc(3) by simp
  note rest = Suc(1) [OF n po1 Suc(4)]
  show ?case
  proof (cases "?v = INTERSECTING")
    case True
    with lt rest [of INTERSECTING] Suc(3) dr show ?thesis
      by (simp add: computeIntersection_loop.simps [of _ _ _ _ _ _ _ i])
  next
    case False
    show ?thesis
    proof (cases "getTestIntersectionFunction c ?v")
      case True
      with False lt Suc(3) dr show ?thesis
        by (auto simp add: computeIntersection_loop.simps [of _ _ _ _ _ _ _ i]
              getTestIntersectionFunction_def split: if_splits)
    next
      case nt: False
      with False lt Suc(3) dr rest [of acc] show ?thesis
        by (auto simp add: computeIntersection_loop.simps [of _ _ _ _ _ _ _ i]
              getTestIntersectionFunction_def split: if_splits)
    qed
  qed
qed

text \<open>
  With a null bounding volume the first iteration raises; without planes there is no
  iteration.
\<close>

lemma loop_null_volume:
  "fst (computeIntersection_loop ptrans isect test None T plns len 0 acc s) =
     (if 0 < len then Inl TypeError else Inr acc)"
  by (simp add: computeIntersection_loop.simps [of _ _ _ _ _ _ _ 0])

lemma classify_eq_spec:
  assumes "predicate_consistent (collections s this)"
  shows "fst (computeIntersectionWithBoundingVolume mul ptrans isect s this (Some vol) parent) =
         Inr (classify_spec (get_combineClippingRegions (collections s this) = Some True)
                (planeVerdicts mul ptrans isect s this vol parent))"
proof -
  let ?obj = "collections s this"
  let ?plns = "planeArrays s (planes ?obj)"
  let ?T = "effectiveTransform mul s this parent"
  let ?c = "priv_combineClippingRegions ?obj"
  let ?init = "if ?c = Some True \<and> 0 < length ?plns then OUTSIDE else INSIDE"
  from assms have test: "priv_testIntersection ?obj = Some (getTestIntersectionFunction ?c)"
    by (simp add: predicate_consistent_def)
  have run: "fst (computeIntersection_loop ptrans isect (Some (getTestIntersectionFunction ?c))
                    (Some vol) ?T ?plns (length ?plns) 0 ?init s') =
             Inr (classify_scan (?c = Some True)
                    (map (\<lambda>p. isect vol (ptrans (planeObjects s p) ?T)) ?plns) ?init)"
    if "planeObjects s' = planeObjects s" for s'
    using loop_scan [OF that refl, of ptrans isect ?c vol ?T ?plns 0 ?init] by simp
  have code: "fst (computeIntersectionWithBoundingVolume mul ptrans isect s this (Some vol) parent) =
              Inr (classify_scan (?c = Some True)
                     (map (\<lambda>p. isect vol (ptrans (planeObjects s p) ?T)) ?plns) ?init)"
  proof (cases parent)
    case None
    then show ?thesis
      using run [of s]
      by (simp add: computeIntersectionWithBoundingVolume_def Let_def test
            get_combineClippingRegions_def effectiveTransform_def)
  next
    case (Some pt)
    then show ?thesis
      using run [of "s\<lparr>scratchMatrix := mul (matrices s (modelMatrix ?obj)) (matrices s pt)\<rparr>"]
      by (simp add: computeIntersectionWithBoundingVolume_def Let_def test
            get_combineClippingRegions_def effectiveTransform_def)
  qed
  show ?thesis
    unfolding code
    by (cases ?plns)
       (simp_all add: classify_spec_def planeVerdicts_def get_combineClippingRegions_def)
qed

subsection \<open>The constructor and the setter\<close>


lemma constructor_consistent:
  "predicate_consistent
     (collections (snd (new_ClippingPlanesCollection s options))
        (fst (new_ClippingPlanesCollection s options)))"
  by (simp add: new_ClippingPlanesCollection_def new_planeArray_def new_Matrix4_def
        new_Color_def Let_def predicate_consistent_def set_combineClippingRegions_def)

lemma constructor_flag:
  "get_combineClippingRegions
     (collections (snd (new_ClippingPlanesCollection s options))
        (fst (new_ClippingPlanesCollection s options))) =
   Some (defaultValue (opt_combineClippingRegions (defaultValue options EMPTY_OBJECT)) True)"
  by (simp add: new_ClippingPlanesCollection_def new_planeArray_def new_Matrix4_def
        new_Color_def Let_def get_combineClippingRegions_def set_combineClippingRegions_def)

lemma setter_consistent:
  "predicate_consistent obj \<Longrightarrow> predicate_consistent (set_combineClippingRegions obj v)"
  by (simp add: predicate_consistent_def set_combineClippingRegions_def)

lemma setter_get: "get_combineClippingRegions (set_combineClippingRegions obj v) = v"
  by (simp add: get_combineClippingRegions_def set_combineClippingRegions_def)

lemma setter_same:
  "get_combineClippingRegions obj = v \<Longrightarrow> set_combineClippingRegions obj v = obj"
  by (simp add: get_combineClippingRegions_def set_combineClippingRegions_def)

lemma two_planes_table:
  "classify_spec True [v1, v2] =
     (if v1 = INSIDE \<or> v2 = INSIDE then INSIDE
      else if v1 = INTERSECTING \<or> v2 = INTERSECTING then INTERSECTING
      else OUTSIDE)"
  by (cases v1; cases v2) (simp_all add: classify_spec_def)

lemma sphere_slab:
  "fst (computeIntersectionWithBoundingVolume Matrix4_multiply Plane_transform
          BoundingSphere_intersectPlane (snd (slab_scene b)) (fst (slab_scene b)) (Some sphere)
          None) =
   Inr (classify_spec b
          [BoundingSphere_intersectPlane sphere \<lparr>normal = (1, 0, 0), distance = 0\<rparr>,
           BoundingSphere_intersectPlane sphere \<lparr>normal = (- 1, 0, 0), distance = 5\<rparr>])"
proof -
  have h: "predicate_consistent (collections (snd (slab_scene b)) (fst (slab_scene b)))"
    by (simp add: predicate_consistent_def slab_facts)
  show ?thesis
    using classify_eq_spec [OF h, of Matrix4_multiply Plane_transform
      BoundingSphere_intersectPlane sphere None]
    by (simp add: slab_facts slab_verdicts get_combineClippingRegions_def)
qed

subsection \<open>The scene of seven planes\<close>


lemma seven_this: "fst seven_planes_scene = 8"
  by (simp add: seven_planes_scene_def seven_planes_store_def scene_defs)

lemma seven_collection:
  "collections (snd seven_planes_scene) 8 =
     \<lparr>planes = 7, enabled = True, modelMatrix = 10, edgeColor = 11, edgeWidth = 0,
      priv_testIntersection = Some (getTestIntersectionFunction (Some True)),
      priv_combineClippingRegions = Some True\<rparr>"
  by (simp add: seven_planes_scene_def seven_planes_store_def scene_defs)

lemma seven_planes: "planeArrays (snd seven_planes_scene) 7 = [0, 1, 2, 3, 4, 5, 6]"
  by (simp add: seven_planes_scene_def seven_planes_store_def scene_defs)

lemma seven_planeObjects:
  "map (planeObjects (snd seven_planes_scene)) [0, 1, 2, 3, 4, 5, 6] =
     map (\<lambda>d. \<lparr>normal = (1, 0, 0), distance = d\<rparr>) [0, 1, 2, 3, 4, 5, 6]"
  by (simp add: seven_planes_scene_def seven_planes_store_def scene_defs)

lemma seven_modelMatrix: "matrices (snd seven_planes_scene) 10 = Matrix4_IDENTITY"
  by (simp add: seven_planes_scene_def seven_planes_store_def scene_defs)

lemma seven_verdicts:
  "planeVerdicts Matrix4_multiply Plane_transform BoundingSphere_intersectPlane
     (snd seven_planes_scene) 8 sphere None =
   map (\<lambda>d. BoundingSphere_intersectPlane sphere \<lparr>normal = (1, 0, 0), distance = d\<rparr>)
     [0, 1, 2, 3, 4, 5, 6]"
proof -
  have "planeVerdicts Matrix4_multiply Plane_transform BoundingSphere_intersectPlane
     (snd seven_planes_scene) 8 sphere None =
     map (BoundingSphere_intersectPlane sphere)
       (map (planeObjects (snd seven_planes_scene)) [0, 1, 2, 3, 4, 5, 6])"
    by (simp add: planeVerdicts_def effectiveTransform_def seven_collection seven_planes
          seven_modelMatrix Plane_transform_identity del: list.map)
  then show ?thesis
    by (simp only: seven_planeObjects) simp
qed

lemma planeVerdicts_after_write:
  "planeVerdicts mul ptrans isect
     (update_collection st this (\<lambda>c. set_combineClippingRegions c v)) this vol parent =
   planeVerdicts mul ptrans isect st this vol parent"
  by (cases parent)
     (simp_all add: planeVerdicts_def effectiveTransform_def update_collection_def
        set_combineClippingRegions_def)

subsection \<open>The loop of transformAndPackPlanes\<close>


lemma pack_write:
  "set_w (Cartesian3_clone s n q) q d =
     s\<lparr>cartesian4s := (cartesian4s s)(q := (fst n, fst (snd n), snd (snd n), d))\<rparr>"
  by (cases n; cases "cartesian4s s q") (simp add: set_w_def Cartesian3_clone_def)

lemma pack_write_scratch:
  "scratchPlane (Cartesian3_clone s n q) = scratchPlane s"
  by (cases n; cases "cartesian4s s q") (simp add: Cartesian3_clone_def)

lemma overwrite_empty: "overwrite (\<lambda>x. None) f = f"
  by (simp add: fun_eq_iff overwrite_def)

lemma overwrite_idem: "overwrite w (overwrite w f) = overwrite w f"
  by (simp add: fun_eq_iff overwrite_def split: option.splits)

lemma loop_effect:
  "\<exists>r f w. (\<forall>p. f (f p) = f p) \<and>
     (\<forall>s. planeObjects s = po \<longrightarrow>
        transformAndPackPlanes_loop ptrans T plns arr len i s =
          (r, s\<lparr>scratchPlane := f (scratchPlane s),
                 cartesian4s := overwrite w (cartesian4s s)\<rparr>))"
proof (induction "len - i" arbitrary: i)
  case 0
  then have "\<not> i < len" by simp
  then have "transformAndPackPlanes_loop ptrans T plns arr len i s =
          (None, s\<lparr>scratchPlane := (\<lambda>p. p) (scratchPlane s),
                    cartesian4s := overwrite (\<lambda>x. None) (cartesian4s s)\<rparr>)" for s
    by (simp add: transformAndPackPlanes_loop.simps [of _ _ _ _ _ i] overwrite_empty)
  then show ?case
    by (intro exI [of _ None] exI [of _ "\<lambda>p. p"] exI [of _ "\<lambda>x. None"]) simp
next
  case (Suc n)
  then have lt: "i < len" and n: "n = len - Suc i" by simp_all
  let ?P = "ptrans (po (plns ! i)) T"
  show ?case
  proof (cases "array_get arr i")
    case None
    with lt have "transformAndPackPlanes_loop ptrans T plns arr len i s =
          (Some TypeError, s\<lparr>scratchPlane := (\<lambda>p. ?P) (scratchPlane s),
                 cartesian4s := overwrite (\<lambda>x. None) (cartesian4s s)\<rparr>)"
      if "planeObjects s = po" for s
      using that
      by (simp add: transformAndPackPlanes_loop.simps [of _ _ _ _ _ i] Let_def overwrite_empty)
    then show ?thesis
      by (intro exI [of _ "Some TypeError"] exI [of _ "\<lambda>p. ?P"] exI [of _ "\<lambda>x. None"]) simp
  next
    case (Some q)
    let ?V = "(fst (normal ?P), fst (snd (normal ?P)), snd (snd (normal ?P)), distance ?P)"
    from Suc(1) [OF n] obtain r f w where
      run: "\<And>s. planeObjects s = po \<Longrightarrow>
        transformAndPackPlanes_loop ptrans T plns arr len (Suc i) s =
          (r, s\<lparr>scratchPlane := f (scratchPlane s),
                 cartesian4s := overwrite w (cartesian4s s)\<rparr>)"
      by blast
    let ?w = "\<lambda>x. case w x of None \<Rightarrow> (if x = q then Some ?V else None) | Some v \<Rightarrow> Some v"
    have "transformAndPackPlanes_loop ptrans T plns arr len i s =
          (r, s\<lparr>scratchPlane := (\<lambda>p. f ?P) (scratchPlane s),
                 cartesian4s := overwrite ?w (cartesian4s s)\<rparr>)"
      if po: "planeObjects s = po" for s
    proof -
      let ?s3 = "s\<lparr>scratchPlane := ?P, cartesian4s := (cartesian4s s)(q := ?V)\<rparr>"
      have step: "transformAndPackPlanes_loop ptrans T plns arr len i s =
                  transformAndPackPlanes_loop ptrans T plns arr len (Suc i) ?s3"
        using lt Some po
        by (simp add: transformAndPackPlanes_loop.simps [of _ _ _ _ _ i] Let_def pack_write
              pack_write_scratch)
      have "planeObjects ?s3 = po" using po by simp
      from run [OF this] have "transformAndPackPlanes_loop ptrans T plns arr len (Suc i) ?s3 =
          (r, ?s3\<lparr>scratchPlane := f ?P,
                 cartesian4s := overwrite w ((cartesian4s s)(q := ?V))\<rparr>)"
        by simp
      moreover have "overwrite w ((cartesian4s s)(q := ?V)) = overwrite ?w (cartesian4s s)"
        by (auto simp add: fun_eq_iff overwrite_def split: option.splits)
      ultimately show ?thesis
        unfolding step by simp
    qed
    then show ?thesis
      by (intro exI [of _ r] exI [of _ "\<lambda>p. f ?P"] exI [of _ ?w]) simp
  qed
qed



lemma pack_loop_step:
  assumes "i < len" and "array_get arr i = Some q"
  shows "transformAndPackPlanes_loop ptrans T plns arr len i s =
         transformAndPackPlanes_loop ptrans T plns arr len (Suc i)
           (s\<lparr>scratchPlane := ptrans (planeObjects s (plns ! i)) T,
              cartesian4s := (cartesian4s s)
                (q := (fst (normal (ptrans (planeObjects s (plns ! i)) T)),
                       fst (snd (normal (ptrans (planeObjects s (plns ! i)) T))),
                       snd (snd (normal (ptrans (planeObjects s (plns ! i)) T))),
                       distance (ptrans (planeObjects s (plns ! i)) T)))\<rparr>)"
  using assms
  by (simp add: transformAndPackPlanes_loop.simps [of _ _ _ _ _ i] Let_def pack_write
        pack_write_scratch)

lemma pack_loop_returns:
  assumes "\<forall>j. i \<le> j \<and> j < len \<longrightarrow> array_get arr j \<noteq> None"
  shows "fst (transformAndPackPlanes_loop ptrans T plns arr len i s) = None"
  using assms
proof (induction "len - i" arbitrary: i s)
  case 0
  then show ?case
    by (simp add: transformAndPackPlanes_loop.simps [of _ _ _ _ _ i])
next
  case (Suc n)
  then have lt: "i < len" and n: "n = len - Suc i" by simp_all
  from Suc(3) lt obtain q where q: "array_get arr i = Some q" by auto
  from Suc(3) have rest: "\<forall>j. Suc i \<le> j \<and> j < len \<longrightarrow> array_get arr j \<noteq> None" by simp
  show ?case
    unfolding pack_loop_step [OF lt q] by (rule Suc(1) [OF n rest])
qed

lemma pack_loop_frame:
  assumes "\<forall>j. i \<le> j \<and> j < len \<longrightarrow> array_get arr j \<noteq> Some q"
  shows "cartesian4s (snd (transformAndPackPlanes_loop ptrans T plns arr len i s)) q =
         cartesian4s s q"
  using assms
proof (induction "len - i" arbitrary: i s)
  case 0
  then show ?case
    by (simp add: transformAndPackPlanes_loop.simps [of _ _ _ _ _ i])
next
  case (Suc n)
  then have lt: "i < len" and n: "n = len - Suc i" by simp_all
  from Suc(3) have rest: "\<forall>j. Suc i \<le> j \<and> j < len \<longrightarrow> array_get arr j \<noteq> Some q" by simp
  show ?case
  proof (cases "array_get arr i")
    case None
    with lt show ?thesis
      by (simp add: transformAndPackPlanes_loop.simps [of _ _ _ _ _ i] Let_def)
  next
    case (Some q')
    with Suc(3) lt have "q' \<noteq> q" by auto
    then show ?thesis
      unfolding pack_loop_step [OF lt Some] using Suc(1) [OF n rest] by simp
  qed
qed

lemma pack_loop_planeObjects:
  "planeObjects (snd (transformAndPackPlanes_loop ptrans T plns arr len i s)) = planeObjects s"
proof (induction "len - i" arbitrary: i s)
  case 0
  then show ?case
    by (simp add: transformAndPackPlanes_loop.simps [of _ _ _ _ _ i])
next
  case (Suc n)
  then have lt: "i < len" and n: "n = len - Suc i" by simp_all
  show ?case
  proof (cases "array_get arr i")
    case None
    with lt show ?thesis
      by (simp add: transformAndPackPlanes_loop.simps [of _ _ _ _ _ i] Let_def)
  next
    case (Some q')
    show ?thesis
      unfolding pack_loop_step [OF lt Some] using Suc(1) [OF n] by simp
  qed
qed

lemma pack_loop_contents:
  assumes "\<forall>j k. i \<le> j \<and> j < k \<and> k < len \<longrightarrow> array_get arr j \<noteq> array_get arr k"
    and "\<forall>j. i \<le> j \<and> j < len \<longrightarrow> array_get arr j \<noteq> None"
    and "i \<le> j" and "j < len" and "array_get arr j = Some q"
  shows "cartesian4s (snd (transformAndPackPlanes_loop ptrans T plns arr len i s)) q =
         (fst (normal (ptrans (planeObjects s (plns ! j)) T)),
          fst (snd (normal (ptrans (planeObjects s (plns ! j)) T))),
          snd (snd (normal (ptrans (planeObjects s (plns ! j)) T))),
          distance (ptrans (planeObjects s (plns ! j)) T))"
  using assms
proof (induction "len - i" arbitrary: i s)
  case 0
  then show ?case by simp
next
  case (Suc n)
  then have lt: "i < len" and n: "n = len - Suc i" by simp_all
  from Suc(4) lt obtain q' where q': "array_get arr i = Some q'" by auto
  from Suc(3) have d: "\<forall>j k. Suc i \<le> j \<and> j < k \<and> k < len \<longrightarrow> array_get arr j \<noteq> array_get arr k"
    by simp
  from Suc(4) have rest: "\<forall>j. Suc i \<le> j \<and> j < len \<longrightarrow> array_get arr j \<noteq> None" by simp
  show ?case
  proof (cases "j = i")
    case True
    with q' Suc(7) have "q' = q" by simp
    moreover have "\<forall>k. Suc i \<le> k \<and> k < len \<longrightarrow> array_get arr k \<noteq> Some q"
    proof (intro allI impI)
      fix k
      assume k: "Suc i \<le> k \<and> k < len"
      then have "i \<le> i \<and> i < k \<and> k < len" by simp
      with Suc(3) have "array_get arr i \<noteq> array_get arr k" by blast
      with True Suc(7) show "array_get arr k \<noteq> Some q" by simp
    qed
    ultimately show ?thesis
      unfolding pack_loop_step [OF lt q'] using True
      by (simp add: pack_loop_frame)
  next
    case False
    with Suc(5) have "Suc i \<le> j" by simp
    from Suc(1) [OF n d rest this Suc(6) Suc(7)] show ?thesis
      unfolding pack_loop_step [OF lt q'] by simp
  qed
qed

text \<open>
  With a container whose slots below the number of planes hold distinct
  \<^verbatim>\<open>Cartesian4\<close> objects, the call returns the container, leaves the array itself as
  it is, and the record of slot \<open>j\<close> holds the normal and the distance of plane \<open>j\<close>
  transformed by the product of the view matrix and the model matrix.
\<close>

lemma pack_with_container:
  assumes "\<forall>j k. j < k \<and> k < length (planeArrays s (planes (collections s this))) \<longrightarrow>
             array_get (packedArrays s array) j \<noteq> array_get (packedArrays s array) k"
    and "\<forall>j. j < length (planeArrays s (planes (collections s this))) \<longrightarrow>
             array_get (packedArrays s array) j \<noteq> None"
  shows "fst (transformAndPackPlanes mul ptrans s this viewMatrix (Some array)) = Inr array"
    and "packedArrays (snd (transformAndPackPlanes mul ptrans s this viewMatrix (Some array))) =
         packedArrays s"
    and "j < length (planeArrays s (planes (collections s this))) \<Longrightarrow>
         array_get (packedArrays s array) j = Some q \<Longrightarrow>
         cartesian4s (snd (transformAndPackPlanes mul ptrans s this viewMatrix (Some array))) q =
         (let p = ptrans (planeObjects s (planeArrays s (planes (collections s this)) ! j))
                    (mul (matrices s viewMatrix) (matrices s (modelMatrix (collections s this))))
          in (fst (normal p), fst (snd (normal p)), snd (snd (normal p)), distance p))"
proof -
  let ?plns = "planeArrays s (planes (collections s this))"
  let ?M = "mul (matrices s viewMatrix) (matrices s (modelMatrix (collections s this)))"
  let ?run = "transformAndPackPlanes_loop ptrans ?M ?plns (packedArrays s array) (length ?plns) 0
                (s\<lparr>scratchMatrix := ?M\<rparr>)"
  have call: "transformAndPackPlanes mul ptrans s this viewMatrix (Some array) =
              (case fst ?run of Some err \<Rightarrow> (Inl err, snd ?run) | None \<Rightarrow> (Inr array, snd ?run))"
    by (simp add: transformAndPackPlanes_def Let_def split: prod.splits option.splits)
  have ok: "fst ?run = None"
    by (rule pack_loop_returns) (use assms(2) in simp)
  show "fst (transformAndPackPlanes mul ptrans s this viewMatrix (Some array)) = Inr array"
    unfolding call ok by simp
  obtain r f w where
    "\<forall>t. planeObjects t = planeObjects s \<longrightarrow>
        transformAndPackPlanes_loop ptrans ?M ?plns (packedArrays s array) (length ?plns) 0 t =
          (r, t\<lparr>scratchPlane := f (scratchPlane t),
                 cartesian4s := overwrite w (cartesian4s t)\<rparr>)"
    using loop_effect [of "planeObjects s" ptrans ?M ?plns "packedArrays s array" "length ?plns" 0]
    by blast
  then have "?run = (r, (s\<lparr>scratchMatrix := ?M\<rparr>)\<lparr>scratchPlane := f (scratchPlane s),
                 cartesian4s := overwrite w (cartesian4s s)\<rparr>)"
    by simp
  then show "packedArrays (snd (transformAndPackPlanes mul ptrans s this viewMatrix (Some array))) =
             packedArrays s"
    unfolding call ok by simp
  show "cartesian4s (snd (transformAndPackPlanes mul ptrans s this viewMatrix (Some array))) q =
         (let p = ptrans (planeObjects s (planeArrays s (planes (collections s this)) ! j))
                    (mul (matrices s viewMatrix) (matrices s (modelMatrix (collections s this))))
          in (fst (normal p), fst (snd (normal p)), snd (snd (normal p)), distance p))"
    if "j < length ?plns" "array_get (packedArrays s array) j = Some q"
    unfolding call ok
    using pack_loop_contents [of 0 "length ?plns" "packedArrays s array" j q ptrans ?M ?plns
            "s\<lparr>scratchMatrix := ?M\<rparr>"] assms that
    by (simp add: Let_def)
qed

lemma upt_16: "[0..<16] = [0, 1, 2, 3, 4, 5, 6, 7, 8, 9, 10, 11, 12, 13, 14, 15]"
  by (simp add: upt_rec)

lemma upt_4: "[0..<4] = [0, 1, 2, 3]"
  by (simp add: upt_rec)

lemma Matrix4_multiply_identity:
  "Matrix4_multiply Matrix4_IDENTITY Matrix4_IDENTITY = Matrix4_IDENTITY"
  by (simp add: Matrix4_multiply_def Matrix4_IDENTITY_def upt_16 upt_4)

lemmas pack_defs = pack_scene_def new_Matrix4_def new_Cartesian4_def new_packedArray_def Let_def

lemma pack_collection: "collections pack_scene 3 = collections (snd (slab_scene True)) 3"
  by (simp add: pack_defs split: prod.splits)

lemma pack_planes: "planeArrays pack_scene 2 = [0, 1]"
  by (simp add: pack_defs slab_facts split: prod.splits)

lemma pack_planeObjects: "planeObjects pack_scene = planeObjects (snd (slab_scene True))"
  by (simp add: pack_defs split: prod.splits)

lemma pack_nextAddr: "nextAddr (snd (slab_scene True)) = 7"
  by (simp add: scene_defs)

lemma pack_view: "matrices pack_scene 7 = Matrix4_IDENTITY"
  by (simp add: pack_defs pack_nextAddr split: prod.splits)

lemma pack_modelMatrix: "matrices pack_scene 5 = Matrix4_IDENTITY"
  by (simp add: pack_defs pack_nextAddr slab_facts split: prod.splits)

lemma pack_container: "packedArrays pack_scene 10 = [Some 8, Some 9]"
  by (simp add: pack_defs pack_nextAddr split: prod.splits)

lemma pack_first:
  "fst (transformAndPackPlanes Matrix4_multiply Plane_transform pack_scene 3 7 (Some 10)) = Inr 10"
  "cartesian4s (snd (transformAndPackPlanes Matrix4_multiply Plane_transform pack_scene 3 7
      (Some 10))) 8 = (1, 0, 0, 0)"
  "cartesian4s (snd (transformAndPackPlanes Matrix4_multiply Plane_transform pack_scene 3 7
      (Some 10))) 9 = (- 1, 0, 0, 5)"
  by (simp_all add: transformAndPackPlanes_def Let_def pack_collection slab_facts pack_planes
      pack_planeObjects pack_view pack_modelMatrix pack_container Matrix4_multiply_identity
      transformAndPackPlanes_loop.simps array_get_def Plane_transform_identity pack_write
      pack_write_scratch)


subsection \<open>The references held by a new collection\<close>


lemmas constructor_defs = new_ClippingPlanesCollection_def new_planeArray_def new_Matrix4_def
  new_Color_def Let_def

lemma constructor_this: "fst (new_ClippingPlanesCollection s options) = nextAddr s"
  by (simp add: constructor_defs)

lemma constructor_fields:
  "planes (collections (snd (new_ClippingPlanesCollection s options)) (nextAddr s)) =
     defaultValue (opt_planes (defaultValue options EMPTY_OBJECT)) (Suc (nextAddr s))"
  "modelMatrix (collections (snd (new_ClippingPlanesCollection s options)) (nextAddr s)) =
     defaultValue (opt_modelMatrix (defaultValue options EMPTY_OBJECT)) (Suc (Suc (nextAddr s)))"
  by (simp_all add: constructor_defs set_combineClippingRegions_def)

lemma constructor_values:
  "opt_planes (defaultValue options EMPTY_OBJECT) = None \<Longrightarrow>
     planeArrays (snd (new_ClippingPlanesCollection s options)) (Suc (nextAddr s)) = []"
  "opt_modelMatrix (defaultValue options EMPTY_OBJECT) = None \<Longrightarrow>
     matrices (snd (new_ClippingPlanesCollection s options)) (Suc (Suc (nextAddr s))) =
       Matrix4_IDENTITY"
  "a < nextAddr s \<Longrightarrow>
     planeArrays (snd (new_ClippingPlanesCollection s options)) a = planeArrays s a"
  "m < nextAddr s \<Longrightarrow>
     matrices (snd (new_ClippingPlanesCollection s options)) m = matrices s m"
  by (simp_all add: constructor_defs)

lemmas caller_defs = caller_scene_def caller_store_def caller_options_def
  two_collections_scene_def

lemma caller_this: "fst caller_scene = 3"
  by (simp add: caller_defs scene_defs)

lemma caller_refs:
  "planes (collections (snd caller_scene) 3) = 1"
  "modelMatrix (collections (snd caller_scene) 3) = 2"
  by (simp_all add: caller_defs scene_defs)

lemma caller_values:
  "planeArrays (snd caller_scene) (Suc 0) = [0]"
  "matrices (snd caller_scene) 2 = Matrix4_IDENTITY"
  by (simp_all add: caller_defs scene_defs)

subsection \<open>The effect of clone\<close>


lemmas clone_defs = clone_def update_collection_def Matrix4_clone_def Color_clone_def
  new_planeArray_def Let_def


lemma clone_new:
  assumes "collection_allocated s this"
  shows "clone s this None =
     (nextAddr s,
      s\<lparr>nextAddr := nextAddr s + 5,
        planeArrays := (planeArrays s)(Suc (nextAddr s) := [],
                          nextAddr s + 4 := planeArrays s (planes (collections s this))),
        matrices := (matrices s)(nextAddr s + 2 := matrices s (modelMatrix (collections s this))),
        colors := (colors s)(nextAddr s + 3 := colors s (edgeColor (collections s this))),
        collections := (collections s)(nextAddr s :=
           \<lparr>planes = nextAddr s + 4, enabled = enabled (collections s this),
            modelMatrix = nextAddr s + 2, edgeColor = nextAddr s + 3,
            edgeWidth = edgeWidth (collections s this),
            priv_testIntersection =
              Some (getTestIntersectionFunction
                      (if get_combineClippingRegions (collections s this) = Some True
                       then Some True else get_combineClippingRegions (collections s this))),
            priv_combineClippingRegions = get_combineClippingRegions (collections s this)\<rparr>)\<rparr>)"
  using assms
  by (auto simp add: clone_defs new_ClippingPlanesCollection_def new_Matrix4_def
        new_Color_def defaultValue_def EMPTY_OBJECT_def
        set_combineClippingRegions_def get_combineClippingRegions_def
        collection_allocated_def numeral_eq_Suc)



lemma clone_new_fields:
  assumes "collection_allocated s this"
  shows "fst (clone s this None) = nextAddr s"
    and "collections (snd (clone s this None)) this = collections s this"
    and "planes (collections (snd (clone s this None)) (nextAddr s)) = nextAddr s + 4"
    and "modelMatrix (collections (snd (clone s this None)) (nextAddr s)) = nextAddr s + 2"
    and "edgeColor (collections (snd (clone s this None)) (nextAddr s)) = nextAddr s + 3"
    and "enabled (collections (snd (clone s this None)) (nextAddr s)) =
           enabled (collections s this)"
    and "edgeWidth (collections (snd (clone s this None)) (nextAddr s)) =
           edgeWidth (collections s this)"
    and "get_combineClippingRegions (collections (snd (clone s this None)) (nextAddr s)) =
           get_combineClippingRegions (collections s this)"
    and "predicate_consistent (collections (snd (clone s this None)) (nextAddr s))"
    and "planeArrays (snd (clone s this None)) (nextAddr s + 4) =
           planeArrays s (planes (collections s this))"
    and "planeArrays (snd (clone s this None)) (planes (collections s this)) =
           planeArrays s (planes (collections s this))"
    and "matrices (snd (clone s this None)) (nextAddr s + 2) =
           matrices s (modelMatrix (collections s this))"
    and "matrices (snd (clone s this None)) (modelMatrix (collections s this)) =
           matrices s (modelMatrix (collections s this))"
    and "colors (snd (clone s this None)) (nextAddr s + 3) =
           colors s (edgeColor (collections s this))"
  using assms
  by (simp_all add: clone_new collection_allocated_def get_combineClippingRegions_def
        predicate_consistent_def getTestIntersectionFunction_def)


lemma slab_nextAddr: "nextAddr (snd (slab_scene b)) = 7"
  by (simp add: scene_defs)

lemma slab_allocated: "collection_allocated (snd (slab_scene b)) 3"
  by (simp add: collection_allocated_def slab_facts slab_nextAddr)





subsection \<open>No planes, no volume, no inverse\<close>

lemma classify_no_planes:
  assumes "planeArrays s (planes (collections s this)) = []"
  shows "fst (computeIntersectionWithBoundingVolume mul ptrans isect s this boundingVolume
                parent) = Inr INSIDE"
  using assms
  by (cases parent)
     (simp_all add: computeIntersectionWithBoundingVolume_def Let_def
        computeIntersection_loop.simps)

lemma classify_null_volume:
  "fst (computeIntersectionWithBoundingVolume mul ptrans isect s this None parent) =
     (if planeArrays s (planes (collections s this)) = [] then Inr INSIDE else Inl TypeError)"
  by (cases parent)
     (simp_all add: computeIntersectionWithBoundingVolume_def Let_def loop_null_volume)

lemma singular_facts:
  "fst singular_scene = 1"
  "modelMatrix (collections (snd singular_scene) (Suc 0)) = 0"
  "planeArrays (snd singular_scene) (planes (collections (snd singular_scene) (Suc 0))) = []"
  "matrices (snd singular_scene) 0 = replicate 16 0"
  by (simp_all add: singular_scene_def scene_defs)

subsection \<open>Claims about computeIntersectionWithBoundingVolume\<close>

text \<open>
  C1. On a collection whose cached predicate is the one selected by its flag (which holds
  from the constructor on), the value returned by computeIntersectionWithBoundingVolume
  for a bounding volume \<open>vol\<close> is the one the specified sequential algorithm \<open>classify_spec\<close> computes from the
  per-plane verdicts, each verdict being that of the volume against the plane
  transformed by the effective transform: the result starts as Outside in intersection
  mode and Inside in union mode when there are planes; Intersecting replaces the
  accumulated result and the scan goes on; Inside ends the scan in intersection mode
  and Outside ends it in union mode; otherwise the accumulated result is returned.
\<close>

theorem C1_classify_follows_algorithm:
  assumes "predicate_consistent (collections s this)"
  shows "fst (computeIntersectionWithBoundingVolume mul ptrans isect s this (Some vol) parent) =
         Inr (classify_spec (get_combineClippingRegions (collections s this) = Some True)
                (planeVerdicts mul ptrans isect s this vol parent))"
  using assms by (rule classify_eq_spec)

text \<open>
  An instance of C1: the slab in intersection mode and a sphere of radius 2 around
  (-1,0,0), which straddles the first plane and is inside the second.
\<close>

theorem C1_classify_follows_algorithm_witness:
  "predicate_consistent (collections (snd (slab_scene True)) (fst (slab_scene True))) \<and>
   fst (computeIntersectionWithBoundingVolume Matrix4_multiply Plane_transform
          BoundingSphere_intersectPlane (snd (slab_scene True)) (fst (slab_scene True))
          (Some \<lparr>center = (- 1, 0, 0), radius = 2\<rparr>) None) = Inr INSIDE"
proof -
  have h: "predicate_consistent (collections (snd (slab_scene True)) (fst (slab_scene True)))"
    by (simp add: predicate_consistent_def slab_facts)
  show ?thesis
    using h C1_classify_follows_algorithm [OF h, of Matrix4_multiply Plane_transform
      BoundingSphere_intersectPlane "\<lparr>center = (- 1, 0, 0), radius = 2\<rparr>" None]
    by (simp add: slab_facts slab_verdicts classify_spec_def get_combineClippingRegions_def
          BoundingSphere_intersectPlane_def Cartesian3_dot_def)
qed

text \<open>
  C3. When the planes array of the collection is empty,
  computeIntersectionWithBoundingVolume returns Inside for every bounding volume (even
  a null one), whatever the flag, the cached predicate, the model matrix and the optional parent
  transform are.
\<close>

theorem C3_no_planes_inside:
  assumes "planeArrays s (planes (collections s this)) = []"
  shows "fst (computeIntersectionWithBoundingVolume mul ptrans isect s this boundingVolume
                parent) = Inr INSIDE"
  using assms
  by (cases parent)
     (simp_all add: computeIntersectionWithBoundingVolume_def Let_def
        computeIntersection_loop.simps)

text \<open>
  An instance of C3: the collection built with no options in the empty state, with its
  own model matrix as parent transform.
\<close>

theorem C3_no_planes_inside_witness:
  "planeArrays (snd no_planes_scene) (planes (collections (snd no_planes_scene) 0)) = [] \<and>
   fst (computeIntersectionWithBoundingVolume Matrix4_multiply Plane_transform
          BoundingSphere_intersectPlane (snd no_planes_scene) 0
          (Some \<lparr>center = (7, 0, 0), radius = 1\<rparr>) (Some 2)) = Inr INSIDE"
proof -
  have h: "planeArrays (snd no_planes_scene) (planes (collections (snd no_planes_scene) 0)) = []"
    by (simp add: no_planes_scene_def scene_defs)
  show ?thesis
    using h C3_no_planes_inside [OF h] by simp
qed

text \<open>
  C2, as the code has it. For the two planes with normals (1,0,0), distance 0 and
  (-1,0,0), distance 5 in intersection mode, the value returned is decided by the two
  per-plane verdicts \<open>v1\<close> and \<open>v2\<close> of the volume: Inside as soon as one of them is
  Inside, which covers the volume inside the slab (Inside, Inside), every volume outside
  the slab (Outside against one plane, Inside against the other) and every volume
  straddling exactly one boundary (Intersecting against one plane, Inside against the
  other); Intersecting when none is Inside and one is Intersecting; Outside when both
  are Outside.
\<close>

theorem C2_slab_inside_when_one_verdict_inside:
  assumes "predicate_consistent (collections s this)"
    and "get_combineClippingRegions (collections s this) = Some True"
    and "planeArrays s (planes (collections s this)) = [p1, p2]"
    and "planeObjects s p1 = \<lparr>normal = (1, 0, 0), distance = 0\<rparr>"
    and "planeObjects s p2 = \<lparr>normal = (- 1, 0, 0), distance = 5\<rparr>"
    and "v1 = isect vol (ptrans \<lparr>normal = (1, 0, 0), distance = 0\<rparr>
                          (effectiveTransform mul s this parent))"
    and "v2 = isect vol (ptrans \<lparr>normal = (- 1, 0, 0), distance = 5\<rparr>
                          (effectiveTransform mul s this parent))"
  shows "fst (computeIntersectionWithBoundingVolume mul ptrans isect s this (Some vol) parent) =
         Inr (if v1 = INSIDE \<or> v2 = INSIDE then INSIDE
              else if v1 = INTERSECTING \<or> v2 = INTERSECTING then INTERSECTING
              else OUTSIDE)"
proof -
  have "planeVerdicts mul ptrans isect s this vol parent = [v1, v2]"
    using assms(3-7) by (simp add: planeVerdicts_def)
  with classify_eq_spec [OF assms(1), of mul ptrans isect vol parent] assms(2)
  show ?thesis
    by (simp only: two_planes_table simp_thms)
qed

text \<open>
  An instance: the sphere of radius 1 around (-2,0,0) lies outside the slab, and the
  collection classifies it as Inside.
\<close>

theorem C2_slab_inside_when_one_verdict_inside_witness:
  "predicate_consistent (collections (snd (slab_scene True)) (fst (slab_scene True))) \<and>
   get_combineClippingRegions (collections (snd (slab_scene True)) (fst (slab_scene True))) =
     Some True \<and>
   planeArrays (snd (slab_scene True))
     (planes (collections (snd (slab_scene True)) (fst (slab_scene True)))) = [0, Suc 0] \<and>
   planeObjects (snd (slab_scene True)) 0 = \<lparr>normal = (1, 0, 0), distance = 0\<rparr> \<and>
   planeObjects (snd (slab_scene True)) (Suc 0) = \<lparr>normal = (- 1, 0, 0), distance = 5\<rparr> \<and>
   fst (computeIntersectionWithBoundingVolume Matrix4_multiply Plane_transform
          BoundingSphere_intersectPlane (snd (slab_scene True)) (fst (slab_scene True))
          (Some \<lparr>center = (- 2, 0, 0), radius = 1\<rparr>) None) = Inr INSIDE"
proof -
  let ?s = "snd (slab_scene True)" and ?c = "fst (slab_scene True)"
  have h1: "predicate_consistent (collections ?s ?c)"
    by (simp add: predicate_consistent_def slab_facts)
  have h2: "get_combineClippingRegions (collections ?s ?c) = Some True"
    by (simp add: get_combineClippingRegions_def slab_facts)
  have h3: "planeArrays ?s (planes (collections ?s ?c)) = [0, Suc 0]"
    by (simp add: slab_facts)
  have h4: "planeObjects ?s 0 = \<lparr>normal = (1, 0, 0), distance = 0\<rparr>"
    by (simp add: slab_facts)
  have h5: "planeObjects ?s (Suc 0) = \<lparr>normal = (- 1, 0, 0), distance = 5\<rparr>"
    by (simp add: slab_facts)
  show ?thesis
    using h1 h2 h3 h4 h5 C2_slab_inside_when_one_verdict_inside [where isect = BoundingSphere_intersectPlane
      and vol = "\<lparr>center = (- 2, 0, 0), radius = 1\<rparr>" and ptrans = Plane_transform
      and mul = Matrix4_multiply and parent = None, OF h1 h2 h3 h4 h5 refl refl]
    by (simp add: effectiveTransform_def slab_facts Plane_transform_identity
          BoundingSphere_intersectPlane_def Cartesian3_dot_def)
qed


text \<open>
  C2 as stated fails. The sphere of radius 1 around (-2,0,0) is outside the first plane,
  so outside the slab, and the result is not Outside; the sphere of radius 1 around the
  origin straddles the first plane only, and the result is not Intersecting.
\<close>

theorem C2_slab_counterexample:
  "BoundingSphere_intersectPlane \<lparr>center = (- 2, 0, 0), radius = 1\<rparr>
     \<lparr>normal = (1, 0, 0), distance = 0\<rparr> = OUTSIDE \<and>
   fst (computeIntersectionWithBoundingVolume Matrix4_multiply Plane_transform
          BoundingSphere_intersectPlane (snd (slab_scene True)) (fst (slab_scene True))
          (Some \<lparr>center = (- 2, 0, 0), radius = 1\<rparr>) None) \<noteq> Inr OUTSIDE \<and>
   BoundingSphere_intersectPlane \<lparr>center = (0, 0, 0), radius = 1\<rparr>
     \<lparr>normal = (1, 0, 0), distance = 0\<rparr> = INTERSECTING \<and>
   BoundingSphere_intersectPlane \<lparr>center = (0, 0, 0), radius = 1\<rparr>
     \<lparr>normal = (- 1, 0, 0), distance = 5\<rparr> = INSIDE \<and>
   fst (computeIntersectionWithBoundingVolume Matrix4_multiply Plane_transform
          BoundingSphere_intersectPlane (snd (slab_scene True)) (fst (slab_scene True))
          (Some \<lparr>center = (0, 0, 0), radius = 1\<rparr>) None) \<noteq> Inr INTERSECTING"
  by (simp add: sphere_slab classify_spec_def BoundingSphere_intersectPlane_def
        Cartesian3_dot_def)


text \<open>
  C9, as the code has it. The file checks none of the three malformed inputs, for every
  state and every options object, and for the values \<open>mul\<close>, \<open>ptrans\<close> and \<open>isect\<close>
  that the collaborators return (a call in which a collaborator throws is not described).
  The number of planes is never looked at: the constructor returns a collection whatever
  the length of the planes array, and computeIntersectionWithBoundingVolume returns the
  verdict of the same sequential scan over all its planes. The matrices are never
  inspected: they are handed to the collaborators and the result is the scan over the
  planes these return, for every model matrix and parent transform, with or without an
  inverse. A null bounding volume is not checked either: the result is Inside when
  there are no planes, and the TypeError of calling a method of null at the first plane
  otherwise.
\<close>

theorem C9_no_validation:
  "(let this = fst (new_ClippingPlanesCollection s options);
        s' = snd (new_ClippingPlanesCollection s options)
    in fst (computeIntersectionWithBoundingVolume mul ptrans isect s' this (Some vol) parent) =
         Inr (classify_spec
                (opt_combineClippingRegions (defaultValue options EMPTY_OBJECT) \<noteq> Some False)
                (planeVerdicts mul ptrans isect s' this vol parent)) \<and>
       fst (computeIntersectionWithBoundingVolume mul ptrans isect s' this None parent) =
         (if planeArrays s' (planes (collections s' this)) = [] then Inr INSIDE
          else Inl TypeError))"
proof -
  have "(Some (defaultValue (opt_combineClippingRegions (defaultValue options EMPTY_OBJECT))
                 True) = Some True) =
        (opt_combineClippingRegions (defaultValue options EMPTY_OBJECT) \<noteq> Some False)"
    by (cases "opt_combineClippingRegions (defaultValue options EMPTY_OBJECT)")
       (simp_all add: defaultValue_def)
  with classify_eq_spec [OF constructor_consistent, of mul ptrans isect s options vol parent]
  show ?thesis
    by (simp only: Let_def constructor_flag classify_null_volume simp_thms)
qed

text \<open>
  An instance: the collection of seven planes classifies the sphere of radius 1 around
  (-3,0,0), which is inside the fifth plane, as Inside, and raises on a null volume.
\<close>

theorem C9_no_validation_witness:
  "length (planeArrays (snd seven_planes_scene)
             (planes (collections (snd seven_planes_scene) (fst seven_planes_scene)))) = 7 \<and>
   fst (computeIntersectionWithBoundingVolume Matrix4_multiply Plane_transform
          BoundingSphere_intersectPlane (snd seven_planes_scene) (fst seven_planes_scene)
          (Some \<lparr>center = (- 3, 0, 0), radius = 1\<rparr>) None) = Inr INSIDE \<and>
   fst (computeIntersectionWithBoundingVolume Matrix4_multiply Plane_transform
          BoundingSphere_intersectPlane (snd seven_planes_scene) (fst seven_planes_scene)
          None None) = Inl TypeError"
  using C9_no_validation [where mul = Matrix4_multiply and ptrans = Plane_transform
    and isect = BoundingSphere_intersectPlane and s = "snd seven_planes_store"
    and options = "Some (EMPTY_OBJECT\<lparr>opt_planes := Some (fst seven_planes_store)\<rparr>)"
    and vol = "\<lparr>center = (- 3, 0, 0), radius = 1\<rparr>" and parent = None]
  unfolding seven_planes_scene_def [symmetric]
  by (simp add: Let_def seven_this seven_collection seven_planes seven_verdicts classify_spec_def
        BoundingSphere_intersectPlane_def Cartesian3_dot_def defaultValue_def EMPTY_OBJECT_def)

text \<open>
  C9 as stated fails for each of the three inputs. The constructor accepts an array of
  seven planes, and the classification of the sphere of radius 1 around (-10,0,0)
  against it returns a verdict, Outside. A collection whose model matrix is all zeros
  classifies the same sphere as Inside. A collection without planes classifies a null
  volume as Inside. In none of them is there an assertion or an error.
\<close>

theorem C9_malformed_counterexample:
  "length (planeArrays (snd seven_planes_scene)
             (planes (collections (snd seven_planes_scene) (fst seven_planes_scene)))) = 7 \<and>
   fst (computeIntersectionWithBoundingVolume Matrix4_multiply Plane_transform
          BoundingSphere_intersectPlane (snd seven_planes_scene) (fst seven_planes_scene)
          (Some \<lparr>center = (- 10, 0, 0), radius = 1\<rparr>) None) = Inr OUTSIDE \<and>
   matrices (snd singular_scene)
     (modelMatrix (collections (snd singular_scene) (fst singular_scene))) = replicate 16 0 \<and>
   fst (computeIntersectionWithBoundingVolume Matrix4_multiply Plane_transform
          BoundingSphere_intersectPlane (snd singular_scene) (fst singular_scene)
          (Some \<lparr>center = (- 10, 0, 0), radius = 1\<rparr>) None) = Inr INSIDE \<and>
   fst (computeIntersectionWithBoundingVolume Matrix4_multiply Plane_transform
          BoundingSphere_intersectPlane (snd no_planes_scene) (fst no_planes_scene)
          None None) = Inr INSIDE"
proof -
  have h: "predicate_consistent (collections (snd seven_planes_scene) (fst seven_planes_scene))"
    by (simp add: predicate_consistent_def seven_this seven_collection)
  have seven: "fst (computeIntersectionWithBoundingVolume Matrix4_multiply Plane_transform
          BoundingSphere_intersectPlane (snd seven_planes_scene) (fst seven_planes_scene)
          (Some \<lparr>center = (- 10, 0, 0), radius = 1\<rparr>) None) = Inr OUTSIDE"
    using classify_eq_spec [OF h, of Matrix4_multiply Plane_transform
      BoundingSphere_intersectPlane "\<lparr>center = (- 10, 0, 0), radius = 1\<rparr>" None]
    by (simp add: seven_this seven_collection seven_planes seven_verdicts classify_spec_def
          BoundingSphere_intersectPlane_def Cartesian3_dot_def get_combineClippingRegions_def)
  have e1: "planeArrays (snd singular_scene)
              (planes (collections (snd singular_scene) (fst singular_scene))) = []"
    by (simp add: singular_facts)
  have e2: "planeArrays (snd no_planes_scene)
              (planes (collections (snd no_planes_scene) (fst no_planes_scene))) = []"
    by (simp add: no_planes_scene_def scene_defs)
  show ?thesis
    using seven
      classify_no_planes [OF e1, where mul = Matrix4_multiply and ptrans = Plane_transform
        and isect = BoundingSphere_intersectPlane
        and boundingVolume = "Some \<lparr>center = (- 10, 0, 0), radius = 1\<rparr>" and parent = None]
      classify_no_planes [OF e2, where mul = Matrix4_multiply and ptrans = Plane_transform
        and isect = BoundingSphere_intersectPlane and boundingVolume = None and parent = None]
    by (simp add: seven_this seven_collection seven_planes singular_facts)
qed


subsection \<open>Claims about the property combineClippingRegions\<close>

text \<open>
  C4. The collection returned by the constructor has the cached predicate selected by
  its flag. For every object \<open>obj\<close>, whether or not its predicate matches its flag: a
  read after a write of \<open>v\<close> returns \<open>v\<close>; a write of the value the flag already
  has changes nothing, neither in the object nor in the state, so nothing is derived
  again (not even a predicate that is undefined); a write of another value stores the
  predicate selected by \<open>v\<close>. On a collection whose predicate matches its flag, a
  write of \<open>v\<close> keeps that property and the next classification is the specified scan
  in the mode \<open>v\<close>.
\<close>

theorem C4_predicate_matches_flag:
  "predicate_consistent
     (collections (snd (new_ClippingPlanesCollection s options))
        (fst (new_ClippingPlanesCollection s options))) \<and>
   get_combineClippingRegions (set_combineClippingRegions obj v) = v \<and>
   (get_combineClippingRegions obj = v \<longrightarrow> set_combineClippingRegions obj v = obj) \<and>
   (get_combineClippingRegions obj \<noteq> v \<longrightarrow>
      priv_testIntersection (set_combineClippingRegions obj v) =
        Some (getTestIntersectionFunction v)) \<and>
   (get_combineClippingRegions (collections st this) = v \<longrightarrow>
      update_collection st this (\<lambda>c. set_combineClippingRegions c v) = st) \<and>
   (predicate_consistent (collections st this) \<longrightarrow>
      (let st' = update_collection st this (\<lambda>c. set_combineClippingRegions c v)
       in predicate_consistent (collections st' this) \<and>
          get_combineClippingRegions (collections st' this) = v \<and>
          fst (computeIntersectionWithBoundingVolume mul ptrans isect st' this (Some vol)
                 parent) =
            Inr (classify_spec (v = Some True)
                   (planeVerdicts mul ptrans isect st this vol parent))))"
proof -
  let ?st' = "update_collection st this (\<lambda>c. set_combineClippingRegions c v)"
  have obj': "collections ?st' this = set_combineClippingRegions (collections st this) v"
    by (simp add: update_collection_def)
  have g: "get_combineClippingRegions (collections ?st' this) = v"
    unfolding obj' by (rule setter_get)
  have same: "?st' = st" if "get_combineClippingRegions (collections st this) = v"
    using setter_same [OF that] by (simp add: update_collection_def)
  have changed: "priv_testIntersection (set_combineClippingRegions obj v) =
                   Some (getTestIntersectionFunction v)"
    if "get_combineClippingRegions obj \<noteq> v"
    using that by (simp add: get_combineClippingRegions_def set_combineClippingRegions_def)
  have after: "predicate_consistent (collections ?st' this) \<and>
          get_combineClippingRegions (collections ?st' this) = v \<and>
          fst (computeIntersectionWithBoundingVolume mul ptrans isect ?st' this (Some vol)
                 parent) =
            Inr (classify_spec (v = Some True)
                   (planeVerdicts mul ptrans isect st this vol parent))"
    if inv: "predicate_consistent (collections st this)"
  proof -
    have c: "predicate_consistent (collections ?st' this)"
      unfolding obj' using inv by (rule setter_consistent)
    have "fst (computeIntersectionWithBoundingVolume mul ptrans isect ?st' this (Some vol)
                 parent) =
            Inr (classify_spec (v = Some True)
                   (planeVerdicts mul ptrans isect st this vol parent))"
      using classify_eq_spec [OF c, of mul ptrans isect vol parent]
      by (simp only: g planeVerdicts_after_write)
    with c g show ?thesis by blast
  qed
  from constructor_consistent [of s options] setter_get [of obj v] setter_same [of obj v]
    changed same after
  show ?thesis
    by (simp only: Let_def) blast
qed

text \<open>
  An instance. An object with the flag true and no predicate is left as it is by a write
  of true, and gets the union predicate by a write of false. The slab in intersection
  mode is unchanged by a write of true; switched to union mode, it classifies the sphere
  of radius 1 around (-2,0,0), outside the first plane, as Outside.
\<close>

theorem C4_predicate_matches_flag_witness:
  "get_combineClippingRegions
     ((collections empty_state 0)\<lparr>priv_combineClippingRegions := Some True\<rparr>) = Some True \<and>
   priv_testIntersection
     (set_combineClippingRegions
        ((collections empty_state 0)\<lparr>priv_combineClippingRegions := Some True\<rparr>) (Some True)) =
     None \<and>
   get_combineClippingRegions
     ((collections empty_state 0)\<lparr>priv_combineClippingRegions := Some True\<rparr>) \<noteq> Some False \<and>
   priv_testIntersection
     (set_combineClippingRegions
        ((collections empty_state 0)\<lparr>priv_combineClippingRegions := Some True\<rparr>) (Some False)) =
     Some (getTestIntersectionFunction (Some False)) \<and>
   get_combineClippingRegions (collections (snd (slab_scene True)) 3) = Some True \<and>
   update_collection (snd (slab_scene True)) 3 (\<lambda>c. set_combineClippingRegions c (Some True)) =
     snd (slab_scene True) \<and>
   predicate_consistent (collections (snd (slab_scene True)) 3) \<and>
   get_combineClippingRegions
     (collections (update_collection (snd (slab_scene True)) 3
                     (\<lambda>c. set_combineClippingRegions c (Some False))) 3) = Some False \<and>
   fst (computeIntersectionWithBoundingVolume Matrix4_multiply Plane_transform
          BoundingSphere_intersectPlane
          (update_collection (snd (slab_scene True)) 3
             (\<lambda>c. set_combineClippingRegions c (Some False))) 3
          (Some \<lparr>center = (- 2, 0, 0), radius = 1\<rparr>) None) = Inr OUTSIDE"
proof -
  let ?obj = "(collections empty_state 0)\<lparr>priv_combineClippingRegions := Some True\<rparr>"
  have o1: "get_combineClippingRegions ?obj = Some True"
    by (simp add: get_combineClippingRegions_def)
  have o2: "get_combineClippingRegions ?obj \<noteq> Some False"
    by (simp add: get_combineClippingRegions_def)
  have t: "priv_testIntersection ?obj = None"
    by (simp add: empty_state_def)
  have f: "get_combineClippingRegions (collections (snd (slab_scene True)) 3) = Some True"
    by (simp add: get_combineClippingRegions_def slab_facts)
  have h: "predicate_consistent (collections (snd (slab_scene True)) 3)"
    by (simp add: predicate_consistent_def slab_facts)
  show ?thesis
    using o1 o2 t f h
      C4_predicate_matches_flag [where obj = ?obj and v = "Some True"
        and st = "snd (slab_scene True)" and this = 3
        and s = empty_state and options = None
        and mul = Matrix4_multiply and ptrans = Plane_transform
        and isect = BoundingSphere_intersectPlane
        and vol = "\<lparr>center = (- 2, 0, 0), radius = 1\<rparr>" and parent = None]
      C4_predicate_matches_flag [where obj = ?obj and v = "Some False"
        and st = "snd (slab_scene True)" and this = 3
        and s = empty_state and options = None
        and mul = Matrix4_multiply and ptrans = Plane_transform
        and isect = BoundingSphere_intersectPlane
        and vol = "\<lparr>center = (- 2, 0, 0), radius = 1\<rparr>" and parent = None]
    by (simp add: Let_def slab_verdicts classify_spec_def BoundingSphere_intersectPlane_def
          Cartesian3_dot_def)
qed


subsection \<open>Claims about the constructor\<close>

text \<open>
  C5, as the code has it. The constructor keeps each reference it is given, on its own:
  when the options name a planes array \<open>a\<close>, the planes field of the new collection is
  \<open>a\<close> itself, with the caller's plane references, and after any later write of
  \<open>xs\<close> to the array \<open>a\<close> the collection's planes are \<open>xs\<close>; when the options
  name a model matrix \<open>m\<close>, the field is \<open>m\<close> itself, and after any later write of
  \<open>mx\<close> to \<open>m\<close> the collection's model matrix is \<open>mx\<close>. Only an absent option
  gets a default in a newly allocated object: an empty array, the identity matrix.
\<close>

theorem C5_constructor_keeps_references:
  "(let opts = defaultValue options EMPTY_OBJECT;
        this = fst (new_ClippingPlanesCollection s options);
        s' = snd (new_ClippingPlanesCollection s options);
        obj = collections s' this
    in (opt_planes opts = Some a \<longrightarrow>
          planes obj = a \<and> ((planeArrays s')(a := xs)) (planes obj) = xs) \<and>
       (opt_planes opts = Some a \<and> a < nextAddr s \<longrightarrow>
          planeArrays s' (planes obj) = planeArrays s a) \<and>
       (opt_modelMatrix opts = Some m \<longrightarrow>
          modelMatrix obj = m \<and> ((matrices s')(m := mx)) (modelMatrix obj) = mx) \<and>
       (opt_modelMatrix opts = Some m \<and> m < nextAddr s \<longrightarrow>
          matrices s' (modelMatrix obj) = matrices s m) \<and>
       (opt_planes opts = None \<longrightarrow>
          nextAddr s \<le> planes obj \<and> planeArrays s' (planes obj) = []) \<and>
       (opt_modelMatrix opts = None \<longrightarrow>
          nextAddr s \<le> modelMatrix obj \<and> matrices s' (modelMatrix obj) = Matrix4_IDENTITY))"
  by (auto simp add: Let_def constructor_this constructor_fields constructor_values
        defaultValue_def)

text \<open>
  Two instances. With only the caller's array named, the collection holds that array, at
  address 1 with the plane at address 0, and a new identity matrix; with only the
  caller's matrix named, it holds that matrix, at address 2, and a new empty array.
\<close>

theorem C5_constructor_keeps_references_witness:
  "planes (collections
            (snd (new_ClippingPlanesCollection caller_store
                    (Some (EMPTY_OBJECT\<lparr>opt_planes := Some 1\<rparr>)))) 3) = 1 \<and>
   planeArrays (snd (new_ClippingPlanesCollection caller_store
                       (Some (EMPTY_OBJECT\<lparr>opt_planes := Some 1\<rparr>)))) 1 = [0] \<and>
   matrices (snd (new_ClippingPlanesCollection caller_store
                    (Some (EMPTY_OBJECT\<lparr>opt_planes := Some 1\<rparr>))))
     (modelMatrix (collections
            (snd (new_ClippingPlanesCollection caller_store
                    (Some (EMPTY_OBJECT\<lparr>opt_planes := Some 1\<rparr>)))) 3)) = Matrix4_IDENTITY \<and>
   modelMatrix (collections
            (snd (new_ClippingPlanesCollection caller_store
                    (Some (EMPTY_OBJECT\<lparr>opt_modelMatrix := Some 2\<rparr>)))) 3) = 2 \<and>
   planeArrays (snd (new_ClippingPlanesCollection caller_store
                       (Some (EMPTY_OBJECT\<lparr>opt_modelMatrix := Some 2\<rparr>))))
     (planes (collections
            (snd (new_ClippingPlanesCollection caller_store
                    (Some (EMPTY_OBJECT\<lparr>opt_modelMatrix := Some 2\<rparr>)))) 3)) = []"
proof -
  have n: "nextAddr caller_store = 3"
    by (simp add: caller_store_def scene_defs)
  have v: "planeArrays caller_store (Suc 0) = [0]"
    by (simp add: caller_store_def scene_defs)
  show ?thesis
    using C5_constructor_keeps_references [where s = caller_store
        and options = "Some (EMPTY_OBJECT\<lparr>opt_planes := Some 1\<rparr>)" and a = 1 and m = 2
        and xs = "[]" and mx = "[]"]
      C5_constructor_keeps_references [where s = caller_store
        and options = "Some (EMPTY_OBJECT\<lparr>opt_modelMatrix := Some 2\<rparr>)" and a = 1 and m = 2
        and xs = "[]" and mx = "[]"]
    by (clarsimp simp add: Let_def constructor_this n v defaultValue_def EMPTY_OBJECT_def)
qed


text \<open>
  C5 as stated fails. After construction the caller empties its array and overwrites its
  matrix with zeros; the collection's planes, which were the one plane at address 0, are
  then empty, and its model matrix, which was the identity, is zero.
\<close>

theorem C5_constructor_counterexample:
  "planeArrays (snd caller_scene) (planes (collections (snd caller_scene) (fst caller_scene))) = [0] \<and>
   planeArrays ((snd caller_scene)\<lparr>planeArrays := (planeArrays (snd caller_scene))(1 := [])\<rparr>)
     (planes (collections
        ((snd caller_scene)\<lparr>planeArrays := (planeArrays (snd caller_scene))(1 := [])\<rparr>)
        (fst caller_scene))) = [] \<and>
   matrices (snd caller_scene) (modelMatrix (collections (snd caller_scene) (fst caller_scene))) =
     Matrix4_IDENTITY \<and>
   matrices ((snd caller_scene)\<lparr>matrices := (matrices (snd caller_scene))(2 := replicate 16 0)\<rparr>)
     (modelMatrix (collections
        ((snd caller_scene)\<lparr>matrices := (matrices (snd caller_scene))(2 := replicate 16 0)\<rparr>)
        (fst caller_scene))) = replicate 16 0"
  by (simp add: caller_this caller_refs caller_values)


subsection \<open>Claims about transformAndPackPlanes\<close>

text \<open>
  C6 fails on the code. Without an output container the array is created by
  \<^verbatim>\<open>new Array(length)\<close>, whose slots are holes; as soon as the collection has a
  plane, the first \<^verbatim>\<open>packedPlane.w = ...\<close> writes a property of
  \<^verbatim>\<open>undefined\<close> and the call ends with a TypeError instead of returning the
  packed planes.
\<close>

theorem C6_no_container_raises:
  assumes "planeArrays s (planes (collections s this)) \<noteq> []"
  shows "fst (transformAndPackPlanes mul ptrans s this viewMatrix None) = Inl TypeError"
  using assms
  by (simp add: transformAndPackPlanes_def new_packedArray_def Let_def
        transformAndPackPlanes_loop.simps [of _ _ _ _ _ 0] array_get_def)

text \<open>
  The failing input: the slab, the view matrix at address 7 and no container.
\<close>

theorem C6_no_container_raises_witness:
  "planeArrays pack_scene (planes (collections pack_scene 3)) \<noteq> [] \<and>
   fst (transformAndPackPlanes Matrix4_multiply Plane_transform pack_scene 3 7 None) =
     Inl TypeError"
proof -
  have h: "planeArrays pack_scene (planes (collections pack_scene 3)) \<noteq> []"
    by (simp add: pack_collection slab_facts pack_planes)
  show ?thesis
    using h C6_no_container_raises [OF h] by simp
qed

text \<open>
  C7. A second call of transformAndPackPlanes with the same collection, view matrix and
  container, made in the state the first call left, returns what the first call
  returned (the same container, or the same error) and leaves the state, hence the packed
  contents and the scratch variables, exactly as the first call left it.
\<close>

theorem C7_pack_twice:
  "transformAndPackPlanes mul ptrans
     (snd (transformAndPackPlanes mul ptrans s this viewMatrix (Some array)))
     this viewMatrix (Some array) =
   transformAndPackPlanes mul ptrans s this viewMatrix (Some array)"
proof -
  let ?obj = "collections s this"
  let ?plns = "planeArrays s (planes ?obj)"
  let ?M = "mul (matrices s viewMatrix) (matrices s (modelMatrix ?obj))"
  let ?s2 = "s\<lparr>scratchMatrix := ?M\<rparr>"
  let ?loop = "transformAndPackPlanes_loop ptrans ?M ?plns (packedArrays s array) (length ?plns) 0"
  obtain r f w where
      idem: "\<And>p. f (f p) = f p" and
      run: "\<And>t. planeObjects t = planeObjects s \<Longrightarrow>
        ?loop t = (r, t\<lparr>scratchPlane := f (scratchPlane t),
                        cartesian4s := overwrite w (cartesian4s t)\<rparr>)"
    using loop_effect [of "planeObjects s" ptrans ?M ?plns "packedArrays s array" "length ?plns" 0]
    by blast
  let ?s3 = "?s2\<lparr>scratchPlane := f (scratchPlane ?s2),
                 cartesian4s := overwrite w (cartesian4s ?s2)\<rparr>"
  let ?out = "\<lambda>res. case fst res of Some err \<Rightarrow> (Inl err, snd res)
                               | None \<Rightarrow> (Inr array, snd res)"
  have unfold: "transformAndPackPlanes mul ptrans t this viewMatrix (Some array) =
                ?out (?loop (t\<lparr>scratchMatrix := ?M\<rparr>))"
    if "collections t = collections s" "planeArrays t = planeArrays s"
       "matrices t = matrices s" "packedArrays t = packedArrays s" for t
    using that
    by (simp add: transformAndPackPlanes_def Let_def split: prod.splits option.splits)
  have loop2: "?loop ?s2 = (r, ?s3)"
    by (rule run) simp
  have first: "transformAndPackPlanes mul ptrans s this viewMatrix (Some array) = ?out (r, ?s3)"
    unfolding unfold [OF refl refl refl refl] loop2 ..
  have fix_matrix: "?s3\<lparr>scratchMatrix := ?M\<rparr> = ?s3"
    by (rule state.equality) simp_all
  have fix_loop: "?s3\<lparr>scratchPlane := f (scratchPlane ?s3),
                      cartesian4s := overwrite w (cartesian4s ?s3)\<rparr> = ?s3"
    by (rule state.equality) (simp_all add: idem overwrite_idem)
  have "?loop ?s3 = (r, ?s3\<lparr>scratchPlane := f (scratchPlane ?s3),
                              cartesian4s := overwrite w (cartesian4s ?s3)\<rparr>)"
    by (rule run) simp
  then have loop3: "?loop ?s3 = (r, ?s3)"
    unfolding fix_loop .
  have "transformAndPackPlanes mul ptrans ?s3 this viewMatrix (Some array) =
        ?out (?loop (?s3\<lparr>scratchMatrix := ?M\<rparr>))"
    by (rule unfold) simp_all
  then have second: "transformAndPackPlanes mul ptrans ?s3 this viewMatrix (Some array) =
                     ?out (r, ?s3)"
    unfolding fix_matrix loop3 .
  have snd_first: "snd (?out (r, ?s3)) = ?s3"
    by (cases r) simp_all
  show ?thesis
    unfolding first snd_first second ..
qed

text \<open>
  An instance: the slab packed into the container at address 10. The call returns the
  container, its two records hold the planes, and a second call changes nothing.
\<close>

theorem C7_pack_twice_witness:
  "fst (transformAndPackPlanes Matrix4_multiply Plane_transform pack_scene 3 7 (Some 10)) =
     Inr 10 \<and>
   cartesian4s (snd (transformAndPackPlanes Matrix4_multiply Plane_transform pack_scene 3 7
      (Some 10))) 8 = (1, 0, 0, 0) \<and>
   cartesian4s (snd (transformAndPackPlanes Matrix4_multiply Plane_transform pack_scene 3 7
      (Some 10))) 9 = (- 1, 0, 0, 5) \<and>
   transformAndPackPlanes Matrix4_multiply Plane_transform
     (snd (transformAndPackPlanes Matrix4_multiply Plane_transform pack_scene 3 7 (Some 10)))
     3 7 (Some 10) =
   transformAndPackPlanes Matrix4_multiply Plane_transform pack_scene 3 7 (Some 10)"
  using C7_pack_twice [of Matrix4_multiply Plane_transform pack_scene 3 7 10]
  by (simp add: pack_first)


subsection \<open>Claims about clone\<close>







text \<open>
  C10. Let the original be a collection that exists in the state. After clone with no
  target, the result is another collection, its planes array is an object other than the
  original's, and the two arrays hold the same references: at every index \<open>i\<close> a write
  of \<open>v\<close> to the plane found through one collection is read through the other.
\<close>

theorem C10_clone_shares_planes:
  assumes "collection_allocated s this"
  shows "(let res = fst (clone s this None);
              s' = snd (clone s this None);
              mine = planeArrays s' (planes (collections s' this));
              theirs = planeArrays s' (planes (collections s' res))
          in res \<noteq> this \<and>
             planes (collections s' res) \<noteq> planes (collections s' this) \<and>
             theirs = mine \<and>
             mine = planeArrays s (planes (collections s this)) \<and>
             (i < length mine \<longrightarrow>
                ((planeObjects s')(theirs ! i := v)) (mine ! i) = v \<and>
                ((planeObjects s')(mine ! i := v)) (theirs ! i) = v))"
  using assms clone_new_fields [OF assms]
  by (simp add: Let_def collection_allocated_def)

text \<open>
  An instance: the clone of the slab holds a new array with the planes at addresses 0
  and 1 of the original.
\<close>

theorem C10_clone_shares_planes_witness:
  "collection_allocated (snd (slab_scene True)) 3 \<and>
   fst (clone (snd (slab_scene True)) 3 None) \<noteq> 3 \<and>
   planes (collections (snd (clone (snd (slab_scene True)) 3 None))
             (fst (clone (snd (slab_scene True)) 3 None))) \<noteq>
   planes (collections (snd (clone (snd (slab_scene True)) 3 None)) 3) \<and>
   planeArrays (snd (clone (snd (slab_scene True)) 3 None))
     (planes (collections (snd (clone (snd (slab_scene True)) 3 None))
                (fst (clone (snd (slab_scene True)) 3 None)))) = [0, 1] \<and>
   planeArrays (snd (clone (snd (slab_scene True)) 3 None))
     (planes (collections (snd (clone (snd (slab_scene True)) 3 None)) 3)) = [0, 1]"
  using slab_allocated [of True]
    C10_clone_shares_planes [OF slab_allocated [of True], of 0 "\<lparr>normal = (0, 1, 0), distance = 9\<rparr>"]
  by (simp add: Let_def slab_facts)


end
